theory Spec2Isabelle
  imports Complex_Main "HOL-Library.Log_Nat"
begin

section \<open>The environment: clock, timers, random numbers, errors\<close>

text \<open>
  The connectors read the wall clock (\<^verbatim>\<open>Date.now()\<close>), wait on timers
  (\<^verbatim>\<open>await new Promise(resolve => setTimeout(resolve, ms))\<close>) and draw random numbers
  (\<^verbatim>\<open>Math.random()\<close>). These effects are made explicit as a \<open>world\<close> value that every
  operation takes and returns:
  \<^item> \<open>clock\<close> is the reading of \<^verbatim>\<open>Date.now()\<close> in milliseconds; it moves only when a
    timer is awaited;
  \<^item> the \<open>k\<close>-th timer awaited fires \<open>late k\<close> milliseconds after its delay has elapsed
    (a timer never fires early);
  \<^item> the \<open>k\<close>-th call of \<^verbatim>\<open>Math.random()\<close> returns \<open>rand_src k\<close>;
  \<^item> \<open>radix_str b x\<close> is the platform's \<^verbatim>\<open>x.toString(b)\<close>.

  Values of the JavaScript type \<^verbatim>\<open>number\<close> are real numbers. The IEEE rounding \<open>double\<close>
  of the section below follows the product under \<^verbatim>\<open>Math.ceil\<close> in \<open>getExternalState\<close> and
  the step and the epoch index of the loop of \<open>getHistoricalPrices\<close>, where it changes an
  integer or the number of passes; the other operations are exact, so that the last-place
  rounding of a price, of a bound or of a scaled random number is not represented.
  \<^verbatim>\<open>NaN\<close> and the infinities are values of the type \<open>jsnumber\<close>, which is used where the
  code can produce them (a division) and for \<open>requiredAttestations\<close>, a number that a
  caller supplies and the code compares.
  Calls of the \<^verbatim>\<open>Logger\<close> have no effect on any result and are left out.
\<close>

record world =
  clock :: int
  late :: "nat \<Rightarrow> nat"
  timer_idx :: nat
  rand_src :: "nat \<Rightarrow> real"
  rand_idx :: nat
  radix_str :: "nat \<Rightarrow> real \<Rightarrow> string"

definition Date_now :: "world \<Rightarrow> int" where
  "Date_now w = clock w"

definition setTimeout :: "nat \<Rightarrow> world \<Rightarrow> world" where
  "setTimeout ms w =
     w\<lparr>clock := clock w + int ms + int (late w (timer_idx w)), timer_idx := Suc (timer_idx w)\<rparr>"

text \<open>\<open>rnd w k\<close> is what the \<open>k\<close>-th next call of \<^verbatim>\<open>Math.random()\<close> returns from \<open>w\<close>;
  \<open>drawn k w\<close> is the world after \<open>k\<close> calls.\<close>

definition rnd :: "world \<Rightarrow> nat \<Rightarrow> real" where
  "rnd w k = rand_src w (rand_idx w + k)"

definition drawn :: "nat \<Rightarrow> world \<Rightarrow> world" where
  "drawn k w = w\<lparr>rand_idx := rand_idx w + k\<rparr>"


text \<open>\<^verbatim>\<open>`0x${Math.random().toString(16).substr(2, n)}`\<close>\<close>

definition hex_token :: "world \<Rightarrow> real \<Rightarrow> nat \<Rightarrow> string" where
  "hex_token w r n = ''0x'' @ take n (drop 2 (radix_str w 16 r))"

text \<open>\<^verbatim>\<open>`req-${Date.now()}-${Math.random().toString(36).substring(2, 9)}`\<close>\<close>

definition request_id :: "world \<Rightarrow> real \<Rightarrow> string" where
  "request_id w r =
     ''req-'' @ radix_str w 10 (of_int (Date_now w)) @ ''-'' @ take 7 (drop 2 (radix_str w 36 r))"

text \<open>A thrown \<^verbatim>\<open>Error\<close> with its message; \<open>Inl\<close> of a result is a throw.\<close>

datatype error = Error string

fun message :: "error \<Rightarrow> string" where
  "message (Error m) = m"

text \<open>\<^verbatim>\<open>try { body } catch (error) { throw new Error(prefix + error.message) }\<close>\<close>

definition rethrow :: "string \<Rightarrow> error + 'a \<Rightarrow> error + 'a" where
  "rethrow prefix body = (case body of Inl e \<Rightarrow> Inl (Error (prefix @ message e)) | Inr v \<Rightarrow> Inr v)"

text \<open>\<^verbatim>\<open>try { body } catch (error) { return handler(error) }\<close>\<close>

definition catch :: "error + 'a \<Rightarrow> (error \<Rightarrow> error + 'a) \<Rightarrow> error + 'a" where
  "catch body handler = (case body of Inl e \<Rightarrow> handler e | Inr v \<Rightarrow> Inr v)"

text \<open>An untyped payload (\<^verbatim>\<open>any\<close>).\<close>

datatype any = Undefined | Num real | Str string | Obj "(string \<times> any) list"

section \<open>Numbers\<close>





text \<open>A number that may also be an infinity or \<^verbatim>\<open>NaN\<close>, with the comparisons
  \<^verbatim>\<open>>=\<close> and \<^verbatim>\<open><\<close>: both are false when an operand is \<^verbatim>\<open>NaN\<close>.\<close>

datatype jsnumber = Finite real | PosInfinity | NegInfinity | NaN

fun js_ge :: "jsnumber \<Rightarrow> jsnumber \<Rightarrow> bool" where
  "js_ge NaN b = False"
| "js_ge a NaN = False"
| "js_ge (Finite a) (Finite b) = (b \<le> a)"
| "js_ge PosInfinity b = True"
| "js_ge a NegInfinity = True"
| "js_ge (Finite a) PosInfinity = False"
| "js_ge NegInfinity (Finite b) = False"
| "js_ge NegInfinity PosInfinity = False"

fun js_lt :: "jsnumber \<Rightarrow> jsnumber \<Rightarrow> bool" where
  "js_lt NaN b = False"
| "js_lt a NaN = False"
| "js_lt (Finite a) (Finite b) = (a < b)"
| "js_lt PosInfinity b = False"
| "js_lt a NegInfinity = False"
| "js_lt (Finite a) PosInfinity = True"
| "js_lt NegInfinity (Finite b) = True"
| "js_lt NegInfinity PosInfinity = True"

section \<open>types.ts\<close>

text \<open>Each interface is a record. A field name that several interfaces share carries a
  prefix, and the connections of the three classes are told apart in the same way
  (\<open>FTSO_\<close>, \<open>FDC_\<close>, \<open>SC_\<close> for their methods of one name).\<close>

record ConnectionStatus =
  connected :: bool
  latency :: "int option"
  lastUpdate :: "int option"
  status_error :: "string option"
  providersCount :: "nat option"
  activeDataFeeds :: "string list option"
  supportedChainsCount :: "nat option"
  activeRequests :: "int option"

text \<open>The object literal \<^verbatim>\<open>{ connected: false }\<close>: no other field is present.\<close>

definition disconnected_status :: ConnectionStatus where
  "disconnected_status =
     \<lparr>connected = False, latency = None, lastUpdate = None, status_error = None,
      providersCount = None, activeDataFeeds = None, supportedChainsCount = None,
      activeRequests = None\<rparr>"

record SubmissionResult =
  success :: bool
  epoch :: int
  assetSymbol :: "string option"
  submissionTimestamp :: int
  transactionHash :: string
  submission_error :: "string option"

record StateConnectorSpecificConfig =
  attestationThreshold :: "real option"
  maxQuerySize :: "real option"
  responseTimeout :: "real option"

record StateConnectorConfig =
  sc_endpoint :: string
  sc_apiKey :: string
  sc_specific :: "StateConnectorSpecificConfig option"
  sc_logLevel :: "string option"

record proof_block =
  blockHeight :: real
  blockHash :: string
  proof_timestamp :: real
  proofType :: string
  signatures :: "string list"

record proof_metadata =
  requestTimestamp :: real
  attestationCount :: real
  requiredAttestations :: jsnumber
  finalized :: bool

record StateProof =
  sp_blockchain :: string
  sp_address :: string
  sp_requestId :: string
  sp_state :: any
  sp_proof :: proof_block
  sp_timestamp :: real
  sp_metadata :: proof_metadata

record attestation_block =
  att_signatures :: "(string \<times> string) list"
  att_timestamp :: real
  validUntil :: real

record response_metadata =
  responseTime :: real
  source :: string
  attestationSchema :: string

record AttestationResponse =
  ar_requestId :: string
  ar_blockchain :: string
  ar_address :: string
  ar_queryData :: any
  ar_responseData :: any
  ar_attestation :: attestation_block
  ar_metadata :: response_metadata

section \<open>state-connector.ts\<close>

text \<open>What \<^verbatim>\<open>client.getStateProof\<close> resolves to.\<close>

record state_proof_data =
  spd_blockchain :: string
  spd_address :: string
  spd_state :: any
  spd_proof :: proof_block

type_synonym sc_client = "string \<Rightarrow> string \<Rightarrow> world \<Rightarrow> state_proof_data \<times> world"

record StateConnectorInterface =
  sc_config :: StateConnectorConfig
  sc_isConnected :: bool
  sc_client :: "sc_client option"
  sc_lastUpdateTimestamp :: int

definition SC_new :: "StateConnectorConfig \<Rightarrow> StateConnectorInterface" where
  "SC_new config =
     \<lparr>sc_config = config, sc_isConnected = False, sc_client = None, sc_lastUpdateTimestamp = 0\<rparr>"

text \<open>The client object that \<^verbatim>\<open>connect\<close> installs; it always returns three signatures.
  A connection keeps its client as a function of the world, so that the operations below
  are defined for any transport. Where an operation calls the client it has passed
  \<open>checkConnection\<close>, which throws when there is none: the branch for a missing client stands
  for the \<^verbatim>\<open>TypeError\<close> of a call on \<^verbatim>\<open>null\<close> and is never taken.\<close>

definition sc_mock_getStateProof :: sc_client where
  "sc_mock_getStateProof blockchain address w =
     (\<lparr>spd_blockchain = blockchain,
       spd_address = address,
       spd_state = Obj
         [(''nonce'', Num (of_int \<lfloor>rnd w 0 * 1000\<rfloor>)),
          (''balance'', Num (rnd w 1 * 10000)),
          (''storage'', Obj [(''key1'', Str (radix_str w 16 (rnd w 2))),
                           (''key2'', Str (radix_str w 16 (rnd w 3)))])],
       spd_proof =
         \<lparr>blockHeight = 12345678 + of_int \<lfloor>rnd w 4 * 1000\<rfloor>,
          blockHash = hex_token w (rnd w 5) 64,
          proof_timestamp = of_int (Date_now w),
          proofType = ''MERKLE_PATRICIA'',
          signatures = map (\<lambda>k. hex_token w (rnd w (6 + k)) 130) [0..<3]\<rparr>\<rparr>,
      drawn 9 w)"

definition SC_connect :: "StateConnectorInterface \<Rightarrow> world \<Rightarrow> error + StateConnectorInterface \<times> world" where
  "SC_connect c w =
     rethrow ''State Connector connection error: ''
       (let w1 = setTimeout 600 w in
        Inr (c\<lparr>sc_client := Some sc_mock_getStateProof,
               sc_isConnected := True,
               sc_lastUpdateTimestamp := Date_now w1\<rparr>, w1))"

definition SC_disconnect :: "StateConnectorInterface \<Rightarrow> error + StateConnectorInterface" where
  "SC_disconnect c =
     (if \<not> sc_isConnected c then Inr c
      else rethrow ''State Connector disconnect error: ''
             (Inr (c\<lparr>sc_client := None, sc_isConnected := False\<rparr>)))"

definition SC_getStatus :: "StateConnectorInterface \<Rightarrow> world \<Rightarrow> error + ConnectionStatus \<times> world" where
  "SC_getStatus c w =
     (if \<not> sc_isConnected c then Inr (disconnected_status, w)
      else catch
             (Inr (disconnected_status
                     \<lparr>connected := True,
                      latency := Some (\<lfloor>rnd w 0 * 120\<rfloor> + 30),
                      lastUpdate := Some (sc_lastUpdateTimestamp c),
                      activeRequests := Some (\<lfloor>rnd w 1 * 30\<rfloor> + 5)\<rparr>, drawn 2 w))
             (\<lambda>e. Inr (disconnected_status
                          \<lparr>connected := True, status_error := Some (message e)\<rparr>, w)))"

definition SC_checkConnection :: "StateConnectorInterface \<Rightarrow> error + unit" where
  "SC_checkConnection c =
     (if \<not> sc_isConnected c \<or> sc_client c = None
      then Inl (Error ''Not connected to State Connector. Call connect() first.'')
      else Inr ())"


definition submitStateProof ::
  "StateConnectorInterface \<Rightarrow> StateProof \<Rightarrow> world \<Rightarrow> error + SubmissionResult \<times> world" where
  "submitStateProof c proof w =
     (case SC_checkConnection c of
        Inl e \<Rightarrow> Inl e
      | Inr _ \<Rightarrow>
          rethrow ''Failed to submit state proof: ''
            (let w1 = setTimeout 400 w;
                 isValid = js_ge (Finite (of_nat (length (signatures (sp_proof proof)))))
                             (requiredAttestations (sp_metadata proof));
                 submissionResult =
                   \<lparr>success = isValid,
                    epoch = Date_now w1 div (3 * 60 * 1000),
                    assetSymbol = None,
                    submissionTimestamp = Date_now w1,
                    transactionHash = hex_token w1 (rnd w1 0) 40,
                    submission_error = None\<rparr>
             in Inr (if \<not> isValid
                     then submissionResult\<lparr>submission_error := Some ''Insufficient attestation signatures''\<rparr>
                     else submissionResult,
                     drawn 1 w1)))"

definition verifyAttestation ::
  "StateConnectorInterface \<Rightarrow> AttestationResponse \<Rightarrow> world \<Rightarrow> error + bool" where
  "verifyAttestation c attestation w =
     (case SC_checkConnection c of
        Inl e \<Rightarrow> Inl e
      | Inr _ \<Rightarrow>
          rethrow ''Failed to verify attestation: ''
            (let isValid = (validUntil (ar_attestation attestation) > of_int (Date_now w)
                            \<and> length (att_signatures (ar_attestation attestation)) \<ge> 3)
             in Inr isValid))"

section \<open>ftso-connection.ts\<close>

record FTSOSpecificConfig =
  dataProviderMode :: "bool option"
  providerIdentity :: "string option"
  privateKey :: "string option"
  votePower :: "real option"
  minSubmissionInterval :: "real option"

record FTSODataProviderSettings =
  dps_providerIdentity :: string
  dps_privateKey :: string
  dps_votePower :: real
  dps_supportedSymbols :: "string list"
  rewardAddress :: string

record FTSOConnectionConfig =
  ftso_endpoint :: string
  ftso_apiKey :: string
  ftsoSpecificConfig :: "FTSOSpecificConfig option"
  dataProviderSettings :: "FTSODataProviderSettings option"
  ftso_logLevel :: "string option"

record FTSOProviderInfo =
  provider_id :: string
  provider_name :: string
  reliabilityScore :: real
  accuracy :: real
  provider_votePower :: real
  supportedSymbols :: "string list"

record price_confidence =
  overall :: real
  providers :: real

record price_source =
  source_providersCount :: real
  consensusReached :: bool
  source_epoch :: int

record PriceData =
  symbol :: string
  price :: real
  timestamp :: real
  confidence :: price_confidence
  sourceInfo :: price_source

record band =
  lower :: real
  upper :: real
  level :: real

record bands =
  interval50 :: band
  interval80 :: band
  interval95 :: band
  interval99 :: band

record ConfidenceInterval =
  ci_symbol :: string
  ci_timestamp :: real
  currentPrice :: real
  intervals :: bands

text \<open>What \<^verbatim>\<open>client.getPriceData\<close> resolves to.\<close>

record price_response =
  pr_price :: real
  pr_timestamp :: real
  pr_confidence :: real
  pr_providers :: real

type_synonym ftso_client = "string \<Rightarrow> world \<Rightarrow> price_response \<times> world"

text \<open>\<^verbatim>\<open>Map.prototype.set\<close> on a map kept in insertion order; \<^verbatim>\<open>size\<close> is the length.\<close>

fun Map_set :: "'k \<Rightarrow> 'v \<Rightarrow> ('k \<times> 'v) list \<Rightarrow> ('k \<times> 'v) list" where
  "Map_set k v [] = [(k, v)]"
| "Map_set k v ((k', v') # m) = (if k' = k then (k', v) # m else (k', v') # Map_set k v m)"

record FTSOConnection =
  ftso_config :: FTSOConnectionConfig
  ftso_isConnected :: bool
  ftso_client :: "ftso_client option"
  providerRegistry :: "(string \<times> FTSOProviderInfo) list"
  ftso_lastUpdateTimestamp :: int

definition FTSO_new :: "FTSOConnectionConfig \<Rightarrow> FTSOConnection" where
  "FTSO_new config =
     \<lparr>ftso_config = config, ftso_isConnected = False, ftso_client = None,
      providerRegistry = [], ftso_lastUpdateTimestamp = 0\<rparr>"

definition ftso_mock_getPriceData :: ftso_client where
  "ftso_mock_getPriceData asset_symbol w =
     (\<lparr>pr_price = rnd w 0 * 50000, pr_timestamp = of_int (Date_now w),
       pr_confidence = 0.95, pr_providers = 32\<rparr>, drawn 1 w)"

definition mockProviders :: "FTSOProviderInfo list" where
  "mockProviders =
     [\<lparr>provider_id = ''provider-1'', provider_name = ''Alpha Oracle'', reliabilityScore = 0.98,
       accuracy = 0.992, provider_votePower = 2500000,
       supportedSymbols = [''BTC'', ''ETH'', ''XRP'', ''FLR'']\<rparr>,
      \<lparr>provider_id = ''provider-2'', provider_name = ''Beta Data'', reliabilityScore = 0.95,
       accuracy = 0.983, provider_votePower = 1800000,
       supportedSymbols = [''BTC'', ''ETH'', ''ADA'', ''SOL'', ''FLR'']\<rparr>,
      \<lparr>provider_id = ''provider-3'', provider_name = ''Gamma Metrics'', reliabilityScore = 0.99,
       accuracy = 0.989, provider_votePower = 3200000,
       supportedSymbols = [''BTC'', ''ETH'', ''XRP'', ''ADA'', ''SOL'', ''DOT'', ''FLR'']\<rparr>]"

text \<open>\<^verbatim>\<open>updateProviderRegistry\<close> logs and swallows any error; none can arise in its body.\<close>

definition updateProviderRegistry :: "FTSOConnection \<Rightarrow> world \<Rightarrow> FTSOConnection" where
  "updateProviderRegistry c w =
     c\<lparr>providerRegistry :=
          fold (\<lambda>provider reg. Map_set (provider_id provider) provider reg)
            mockProviders (providerRegistry c),
        ftso_lastUpdateTimestamp := Date_now w\<rparr>"

definition FTSO_connect :: "FTSOConnection \<Rightarrow> world \<Rightarrow> error + FTSOConnection \<times> world" where
  "FTSO_connect c w =
     rethrow ''FTSO connection error: ''
       (let w1 = setTimeout 500 w;
            c1 = c\<lparr>ftso_client := Some ftso_mock_getPriceData\<rparr>;
            c2 = updateProviderRegistry c1 w1
        in Inr (c2\<lparr>ftso_isConnected := True\<rparr>, w1))"

definition FTSO_disconnect :: "FTSOConnection \<Rightarrow> error + FTSOConnection" where
  "FTSO_disconnect c =
     (if \<not> ftso_isConnected c then Inr c
      else rethrow ''FTSO disconnect error: ''
             (Inr (c\<lparr>ftso_client := None, ftso_isConnected := False\<rparr>)))"

definition FTSO_getStatus :: "FTSOConnection \<Rightarrow> world \<Rightarrow> error + ConnectionStatus \<times> world" where
  "FTSO_getStatus c w =
     (if \<not> ftso_isConnected c then Inr (disconnected_status, w)
      else catch
             (Inr (disconnected_status
                     \<lparr>connected := True,
                      latency := Some (\<lfloor>rnd w 0 * 100\<rfloor> + 20),
                      lastUpdate := Some (ftso_lastUpdateTimestamp c),
                      providersCount := Some (length (providerRegistry c)),
                      activeDataFeeds :=
                        Some [''BTC'', ''ETH'', ''XRP'', ''ADA'', ''SOL'', ''DOT'', ''FLR'',
                              ''USDT'', ''USDC'']\<rparr>, drawn 1 w))
             (\<lambda>e. Inr (disconnected_status
                          \<lparr>connected := True, status_error := Some (message e)\<rparr>, w)))"

definition FTSO_checkConnection :: "FTSOConnection \<Rightarrow> error + unit" where
  "FTSO_checkConnection c =
     (if \<not> ftso_isConnected c \<or> ftso_client c = None
      then Inl (Error ''Not connected to FTSO v2. Call connect() first.'')
      else Inr ())"

definition getLatestPrice :: "FTSOConnection \<Rightarrow> string \<Rightarrow> world \<Rightarrow> error + PriceData \<times> world" where
  "getLatestPrice c asset_symbol w =
     (case FTSO_checkConnection c of
        Inl e \<Rightarrow> Inl e
      | Inr _ \<Rightarrow>
          rethrow (''Failed to get latest price for '' @ asset_symbol @ '': '')
            (case ftso_client c of
               None \<Rightarrow> Inl (Error ''Cannot read properties of null'')
             | Some getPriceData \<Rightarrow>
                 (case getPriceData asset_symbol w of
                    (data, w1) \<Rightarrow>
                      Inr (\<lparr>symbol = asset_symbol,
                            price = pr_price data,
                            timestamp = pr_timestamp data,
                            confidence =
                              \<lparr>overall = pr_confidence data, providers = pr_providers data\<rparr>,
                            sourceInfo =
                              \<lparr>source_providersCount = pr_providers data,
                               consensusReached = True,
                               source_epoch = Date_now w1 div (3 * 60 * 1000)\<rparr>\<rparr>, w1))))"

text \<open>
  \<^verbatim>\<open>new Date(t).toISOString()\<close> throws a \<^verbatim>\<open>RangeError\<close> when \<open>t\<close> is not a time value
  of a \<^verbatim>\<open>Date\<close>, that is when \<open>\<bar>t\<bar>\<close> exceeds 8.64e15 milliseconds. The string itself only
  goes to the logger.
\<close>

definition valid_time_value :: "real \<Rightarrow> bool" where
  "valid_time_value t = (\<bar>t\<bar> \<le> 8640000000000000)"

definition toISOString :: "real \<Rightarrow> error + unit" where
  "toISOString t = (if valid_time_value t then Inr () else Inl (Error ''Invalid time value''))"






definition submitDataPoint ::
  "FTSOConnection \<Rightarrow> string \<Rightarrow> real \<Rightarrow> real \<Rightarrow> world \<Rightarrow> error + SubmissionResult \<times> world" where
  "submitDataPoint c asset_symbol price_arg timestamp_arg w =
     (case FTSO_checkConnection c of
        Inl e \<Rightarrow> Inl e
      | Inr _ \<Rightarrow>
          (if dataProviderSettings (ftso_config c) = None
           then Inl (Error ''This connection is not configured as a data provider'')
           else rethrow (''Failed to submit data point for '' @ asset_symbol @ '': '')
                  (case toISOString timestamp_arg of
                     Inl e \<Rightarrow> Inl e
                   | Inr _ \<Rightarrow>
                       (let w1 = setTimeout 200 w in
                        Inr (\<lparr>success = True,
                              epoch = Date_now w1 div (3 * 60 * 1000),
                              assetSymbol = Some asset_symbol,
                              submissionTimestamp = Date_now w1,
                              transactionHash = hex_token w1 (rnd w1 0) 40,
                              submission_error = None\<rparr>, drawn 1 w1)))))"

definition confidence_band :: "real \<Rightarrow> real \<Rightarrow> real \<Rightarrow> real \<Rightarrow> band" where
  "confidence_band basePrice varianceFactor multiplier lvl =
     \<lparr>lower = basePrice * (1 - varianceFactor * multiplier),
      upper = basePrice * (1 + varianceFactor * multiplier),
      level = lvl\<rparr>"

definition getConfidenceInterval ::
  "FTSOConnection \<Rightarrow> string \<Rightarrow> world \<Rightarrow> error + ConfidenceInterval \<times> world" where
  "getConfidenceInterval c asset_symbol w =
     (case FTSO_checkConnection c of
        Inl e \<Rightarrow> Inl e
      | Inr _ \<Rightarrow>
          rethrow (''Failed to get confidence interval for '' @ asset_symbol @ '': '')
            (case getLatestPrice c asset_symbol w of
               Inl e \<Rightarrow> Inl e
             | Inr (priceData, w1) \<Rightarrow>
                 (let basePrice = price priceData;
                      varianceFactor = 1 - overall (confidence priceData)
                  in Inr (\<lparr>ci_symbol = asset_symbol,
                           ci_timestamp = timestamp priceData,
                           currentPrice = basePrice,
                           intervals =
                             \<lparr>interval50 = confidence_band basePrice varianceFactor 0.67 0.5,
                              interval80 = confidence_band basePrice varianceFactor 1.28 0.8,
                              interval95 = confidence_band basePrice varianceFactor 1.96 0.95,
                              interval99 = confidence_band basePrice varianceFactor 2.58 0.99\<rparr>\<rparr>,
                          w1))))"

section \<open>fdc-connection.ts\<close>

record FDCSpecificConfig =
  maxConcurrentRequests :: "real option"
  defaultTimeout :: "real option"
  verifierNodes :: "string list option"

record FDCConnectionConfig =
  fdc_endpoint :: string
  fdc_apiKey :: string
  fdcSpecificConfig :: "FDCSpecificConfig option"
  fdc_logLevel :: "string option"

record data_attestation =
  att_count :: real
  threshold :: real
  valid :: bool

record ExternalData =
  ed_blockchain :: string
  dataPath :: string
  ed_data :: any
  ed_timestamp :: real
  attestation :: data_attestation
  ed_requestId :: string

text \<open>The result of a division of two finite numbers: JavaScript divides by zero without
  throwing, giving an infinity or \<^verbatim>\<open>NaN\<close> (signed zeros are not told apart).\<close>

definition js_divide :: "real \<Rightarrow> real \<Rightarrow> jsnumber" where
  "js_divide a b =
     (if b \<noteq> 0 then Finite (a / b)
      else if a > 0 then PosInfinity
      else if a < 0 then NegInfinity
      else NaN)"

record verification_details =
  signaturesVerified :: real
  requiredThreshold :: real
  signatureVerificationMethod :: string
  sourceBlockchain :: string
  dataFinality :: real
  crossChainProtocol :: string

record VerificationResult =
  vr_requestId :: string
  verified :: bool
  vr_confidence :: jsnumber
  vr_timestamp :: int
  vr_error :: "string option"
  details :: verification_details

record SupportedBlockchain =
  chain_name :: string
  chainId :: string
  supportedOperations :: "string list"
  averageFinality :: real

text \<open>What \<^verbatim>\<open>client.getExternalData\<close> resolves to; the mock sets no \<^verbatim>\<open>timestamp\<close>.\<close>

record external_response =
  er_data :: any
  er_blockchain :: string
  er_path :: string
  er_timestamp :: "real option"
  er_signatures :: real
  er_threshold :: real

type_synonym fdc_client = "string \<Rightarrow> string \<Rightarrow> world \<Rightarrow> external_response \<times> world"

record FDCConnection =
  fdc_config :: FDCConnectionConfig
  fdc_isConnected :: bool
  fdc_client :: "fdc_client option"
  supportedBlockchains :: "SupportedBlockchain list"
  fdc_lastUpdateTimestamp :: int

text \<open>\<^verbatim>\<open>String.prototype.toLowerCase\<close> on the letters \<open>A\<close> to \<open>Z\<close>; every other character
  of the 8-bit \<open>char\<close> type stays as it is.\<close>

definition lower_char :: "char \<Rightarrow> char" where
  "lower_char ch =
     (if (65::nat) \<le> of_char ch \<and> of_char ch \<le> (90::nat)
      then char_of (of_char ch + (32::nat)) else ch)"

definition toLowerCase :: "string \<Rightarrow> string" where
  "toLowerCase s = map lower_char s"

definition FDC_new :: "FDCConnectionConfig \<Rightarrow> FDCConnection" where
  "FDC_new config =
     \<lparr>fdc_config = config, fdc_isConnected = False, fdc_client = None,
      supportedBlockchains = [], fdc_lastUpdateTimestamp = 0\<rparr>"

definition fdc_mock_getExternalData :: fdc_client where
  "fdc_mock_getExternalData blockchain path w =
     (\<lparr>er_data = Obj [(''value'', Num (rnd w 0 * 1000)),
                      (''timestamp'', Num (of_int (Date_now w)))],
       er_blockchain = blockchain,
       er_path = path,
       er_timestamp = None,
       er_signatures = 7,
       er_threshold = 5\<rparr>, drawn 1 w)"

text \<open>The catalog that \<^verbatim>\<open>connect\<close> stores in \<^verbatim>\<open>supportedBlockchains\<close>.\<close>

definition static_catalog :: "SupportedBlockchain list" where
  "static_catalog =
     [\<lparr>chain_name = ''Bitcoin'', chainId = ''btc-mainnet'',
       supportedOperations = [''UTXO_VERIFICATION'', ''TRANSACTION_VERIFICATION''],
       averageFinality = 60 * 60 * 1000\<rparr>,
      \<lparr>chain_name = ''Ethereum'', chainId = ''eth-mainnet'',
       supportedOperations =
         [''ACCOUNT_STATE'', ''TRANSACTION_VERIFICATION'', ''SMART_CONTRACT_VERIFICATION''],
       averageFinality = 3 * 60 * 1000\<rparr>,
      \<lparr>chain_name = ''XRP Ledger'', chainId = ''xrpl-mainnet'',
       supportedOperations = [''ACCOUNT_STATE'', ''TRANSACTION_VERIFICATION''],
       averageFinality = 5 * 1000\<rparr>,
      \<lparr>chain_name = ''Algorand'', chainId = ''algo-mainnet'',
       supportedOperations = [''ACCOUNT_STATE'', ''TRANSACTION_VERIFICATION''],
       averageFinality = 5 * 1000\<rparr>,
      \<lparr>chain_name = ''Avalanche'', chainId = ''avax-c-chain'',
       supportedOperations =
         [''ACCOUNT_STATE'', ''TRANSACTION_VERIFICATION'', ''SMART_CONTRACT_VERIFICATION''],
       averageFinality = 3 * 1000\<rparr>]"

definition FDC_connect :: "FDCConnection \<Rightarrow> world \<Rightarrow> error + FDCConnection \<times> world" where
  "FDC_connect c w =
     rethrow ''FDC connection error: ''
       (let w1 = setTimeout 700 w in
        Inr (c\<lparr>fdc_client := Some fdc_mock_getExternalData,
               supportedBlockchains := static_catalog,
               fdc_isConnected := True,
               fdc_lastUpdateTimestamp := Date_now w1\<rparr>, w1))"

definition FDC_disconnect :: "FDCConnection \<Rightarrow> error + FDCConnection" where
  "FDC_disconnect c =
     (if \<not> fdc_isConnected c then Inr c
      else rethrow ''FDC disconnect error: ''
             (Inr (c\<lparr>fdc_client := None, fdc_isConnected := False\<rparr>)))"

definition FDC_getStatus :: "FDCConnection \<Rightarrow> world \<Rightarrow> error + ConnectionStatus \<times> world" where
  "FDC_getStatus c w =
     (if \<not> fdc_isConnected c then Inr (disconnected_status, w)
      else catch
             (Inr (disconnected_status
                     \<lparr>connected := True,
                      latency := Some (\<lfloor>rnd w 0 * 150\<rfloor> + 50),
                      lastUpdate := Some (fdc_lastUpdateTimestamp c),
                      supportedChainsCount := Some (length (supportedBlockchains c)),
                      activeRequests := Some (\<lfloor>rnd w 1 * 50\<rfloor> + 10)\<rparr>, drawn 2 w))
             (\<lambda>e. Inr (disconnected_status
                          \<lparr>connected := True, status_error := Some (message e)\<rparr>, w)))"

definition FDC_checkConnection :: "FDCConnection \<Rightarrow> error + unit" where
  "FDC_checkConnection c =
     (if \<not> fdc_isConnected c \<or> fdc_client c = None
      then Inl (Error ''Not connected to Flare Data Connector. Call connect() first.'')
      else Inr ())"

definition requestExternalData ::
  "FDCConnection \<Rightarrow> string \<Rightarrow> string \<Rightarrow> world \<Rightarrow> error + ExternalData \<times> world" where
  "requestExternalData c blockchain path w =
     (case FDC_checkConnection c of
        Inl e \<Rightarrow> Inl e
      | Inr _ \<Rightarrow>
          rethrow (''Failed to request external data from '' @ blockchain @ '': '')
            (case fdc_client c of
               None \<Rightarrow> Inl (Error ''Cannot read properties of null'')
             | Some getExternalData \<Rightarrow>
                 (case getExternalData blockchain path w of
                    (data, w1) \<Rightarrow>
                      Inr (\<lparr>ed_blockchain = blockchain,
                            dataPath = path,
                            ed_data = er_data data,
                            ed_timestamp =
                              (case er_timestamp data of
                                 None \<Rightarrow> of_int (Date_now w1)
                               | Some t \<Rightarrow> if t = 0 then of_int (Date_now w1) else t),
                            attestation =
                              \<lparr>att_count = er_signatures data,
                               threshold = er_threshold data,
                               valid = (er_signatures data \<ge> er_threshold data)\<rparr>,
                            ed_requestId = request_id w1 (rnd w1 0)\<rparr>, drawn 1 w1))))"

text \<open>The test that \<^verbatim>\<open>isBlockchainSupported\<close> and \<^verbatim>\<open>getBlockchainFinality\<close> apply to a
  catalog entry.\<close>

definition chain_matches :: "string \<Rightarrow> SupportedBlockchain \<Rightarrow> bool" where
  "chain_matches blockchain chain =
     (chainId chain = blockchain \<or> toLowerCase (chain_name chain) = toLowerCase blockchain)"

definition getBlockchainFinality :: "FDCConnection \<Rightarrow> string \<Rightarrow> real" where
  "getBlockchainFinality c blockchain =
     (case find (chain_matches blockchain) (supportedBlockchains c) of
        Some chain \<Rightarrow> averageFinality chain
      | None \<Rightarrow> 60 * 60 * 1000)"

definition verifyExternalData ::
  "FDCConnection \<Rightarrow> ExternalData \<Rightarrow> world \<Rightarrow> error + VerificationResult \<times> world" where
  "verifyExternalData c data w =
     (case FDC_checkConnection c of
        Inl e \<Rightarrow> Inl e
      | Inr _ \<Rightarrow>
          rethrow ''Failed to verify external data: ''
            (let w1 = setTimeout 300 w;
                 isValid = (valid (attestation data)
                            \<and> att_count (attestation data) \<ge> threshold (attestation data));
                 verificationResult =
                   \<lparr>vr_requestId = ed_requestId data,
                    verified = isValid,
                    vr_confidence =
                      (if isValid
                       then js_divide (att_count (attestation data))
                              (threshold (attestation data) * 1.5)
                       else Finite 0),
                    vr_timestamp = Date_now w1,
                    vr_error = None,
                    details =
                      \<lparr>signaturesVerified = att_count (attestation data),
                       requiredThreshold = threshold (attestation data),
                       signatureVerificationMethod = ''THRESHOLD_SIGNATURE'',
                       sourceBlockchain = ed_blockchain data,
                       dataFinality = getBlockchainFinality c (ed_blockchain data),
                       crossChainProtocol = ''FDC_ATTESTATION_V1''\<rparr>\<rparr>
             in Inr (if \<not> isValid
                     then verificationResult\<lparr>vr_error := Some ''Insufficient attestation signatures''\<rparr>
                     else verificationResult, w1)))"

definition isBlockchainSupported :: "FDCConnection \<Rightarrow> string \<Rightarrow> error + bool" where
  "isBlockchainSupported c blockchain =
     (case FDC_checkConnection c of
        Inl e \<Rightarrow> Inl e
      | Inr _ \<Rightarrow> Inr (list_ex (chain_matches blockchain) (supportedBlockchains c)))"

section \<open>network-connector.ts\<close>

record FlareConnectionConfig =
  endpoint :: string
  apiKey :: string
  ftsoConfig :: "FTSOSpecificConfig option"
  fdcConfig :: "FDCSpecificConfig option"
  stateConnectorConfig :: "StateConnectorSpecificConfig option"
  logLevel :: "string option"

text \<open>\<^verbatim>\<open>Partial<FlareConnectionConfig>\<close>: every property may be absent.\<close>

record PartialFlareConnectionConfig =
  new_endpoint :: "string option"
  new_apiKey :: "string option"
  new_ftsoConfig :: "FTSOSpecificConfig option"
  new_fdcConfig :: "FDCSpecificConfig option"
  new_stateConnectorConfig :: "StateConnectorSpecificConfig option"
  new_logLevel :: "string option"

record FlareNetworkConnector =
  config :: FlareConnectionConfig
  ftsoConnection :: "FTSOConnection option"
  fdcConnection :: "FDCConnection option"
  stateConnector :: "StateConnectorInterface option"

record connection_statuses =
  ftso_status :: ConnectionStatus
  fdc_status :: ConnectionStatus
  stateConnector_status :: ConnectionStatus

definition FlareNetworkConnector_new :: "FlareConnectionConfig \<Rightarrow> FlareNetworkConnector" where
  "FlareNetworkConnector_new cfg =
     \<lparr>config = cfg, ftsoConnection = None, fdcConnection = None, stateConnector = None\<rparr>"

definition connectToFTSO :: "FlareNetworkConnector \<Rightarrow> world \<Rightarrow> error + FTSOConnection \<times> world" where
  "connectToFTSO s w =
     rethrow ''Failed to connect to FTSO v2: ''
       (FTSO_connect
          (FTSO_new \<lparr>ftso_endpoint = endpoint (config s),
                     ftso_apiKey = apiKey (config s),
                     ftsoSpecificConfig = ftsoConfig (config s),
                     dataProviderSettings = None,
                     ftso_logLevel = None\<rparr>) w)"

definition connectToFDC :: "FlareNetworkConnector \<Rightarrow> world \<Rightarrow> error + FDCConnection \<times> world" where
  "connectToFDC s w =
     rethrow ''Failed to connect to FDC: ''
       (FDC_connect
          (FDC_new \<lparr>fdc_endpoint = endpoint (config s),
                    fdc_apiKey = apiKey (config s),
                    fdcSpecificConfig = fdcConfig (config s),
                    fdc_logLevel = None\<rparr>) w)"

definition connectToStateConnector ::
  "FlareNetworkConnector \<Rightarrow> world \<Rightarrow> error + StateConnectorInterface \<times> world" where
  "connectToStateConnector s w =
     rethrow ''Failed to connect to State Connector: ''
       (SC_connect
          (SC_new \<lparr>sc_endpoint = endpoint (config s),
                   sc_apiKey = apiKey (config s),
                   sc_specific = stateConnectorConfig (config s),
                   sc_logLevel = None\<rparr>) w)"

text \<open>A throw inside \<^verbatim>\<open>initialize\<close> leaves the connections assigned so far in place; here
  that state is not returned with the error.\<close>

definition initialize :: "FlareNetworkConnector \<Rightarrow> world \<Rightarrow> error + FlareNetworkConnector \<times> world" where
  "initialize s w =
     rethrow ''Failed to initialize Flare Network connections: ''
       (case connectToFTSO s w of
          Inl e \<Rightarrow> Inl e
        | Inr (ftso, w1) \<Rightarrow>
            (let s1 = s\<lparr>ftsoConnection := Some ftso\<rparr> in
             case connectToFDC s1 w1 of
               Inl e \<Rightarrow> Inl e
             | Inr (fdc, w2) \<Rightarrow>
                 (let s2 = s1\<lparr>fdcConnection := Some fdc\<rparr> in
                  case connectToStateConnector s2 w2 of
                    Inl e \<Rightarrow> Inl e
                  | Inr (sc, w3) \<Rightarrow> Inr (s2\<lparr>stateConnector := Some sc\<rparr>, w3))))"

definition getFTSOConnection :: "FlareNetworkConnector \<Rightarrow> error + FTSOConnection" where
  "getFTSOConnection s =
     (case ftsoConnection s of
        None \<Rightarrow> Inl (Error ''FTSO connection not initialized. Call initialize() first.'')
      | Some c \<Rightarrow> Inr c)"

definition getConnectionStatus ::
  "FlareNetworkConnector \<Rightarrow> world \<Rightarrow> error + connection_statuses \<times> world" where
  "getConnectionStatus s w =
     (case (case ftsoConnection s of
              Some c \<Rightarrow> FTSO_getStatus c w
            | None \<Rightarrow> Inr (disconnected_status, w)) of
        Inl e \<Rightarrow> Inl e
      | Inr (ftso, w1) \<Rightarrow>
          (case (case fdcConnection s of
                   Some c \<Rightarrow> FDC_getStatus c w1
                 | None \<Rightarrow> Inr (disconnected_status, w1)) of
             Inl e \<Rightarrow> Inl e
           | Inr (fdc, w2) \<Rightarrow>
               (case (case stateConnector s of
                        Some c \<Rightarrow> SC_getStatus c w2
                      | None \<Rightarrow> Inr (disconnected_status, w2)) of
                  Inl e \<Rightarrow> Inl e
                | Inr (sc, w3) \<Rightarrow>
                    Inr (\<lparr>ftso_status = ftso, fdc_status = fdc, stateConnector_status = sc\<rparr>,
                         w3))))"

text \<open>\<^verbatim>\<open>disconnect\<close> of the supervisor disconnects each connection it holds and then drops
  the three references.\<close>

definition disconnect :: "FlareNetworkConnector \<Rightarrow> error + FlareNetworkConnector" where
  "disconnect s =
     rethrow ''Error during disconnect: ''
       (case (case ftsoConnection s of Some c \<Rightarrow> map_sum id Some (FTSO_disconnect c)
                                     | None \<Rightarrow> Inr None) of
          Inl e \<Rightarrow> Inl e
        | Inr _ \<Rightarrow>
            (case (case fdcConnection s of Some c \<Rightarrow> map_sum id Some (FDC_disconnect c)
                                         | None \<Rightarrow> Inr None) of
               Inl e \<Rightarrow> Inl e
             | Inr _ \<Rightarrow>
                 (case (case stateConnector s of Some c \<Rightarrow> map_sum id Some (SC_disconnect c)
                                               | None \<Rightarrow> Inr None) of
                    Inl e \<Rightarrow> Inl e
                  | Inr _ \<Rightarrow>
                      Inr (s\<lparr>ftsoConnection := None, fdcConnection := None,
                             stateConnector := None\<rparr>))))"

text \<open>\<^verbatim>\<open>{...a, ...b}\<close> on one property: the property of \<open>b\<close> wins when it is present.\<close>

definition spread :: "'a option \<Rightarrow> 'a option \<Rightarrow> 'a option" where
  "spread a b = (case b of Some v \<Rightarrow> Some v | None \<Rightarrow> a)"

definition spread_ftso :: "FTSOSpecificConfig option \<Rightarrow> FTSOSpecificConfig option \<Rightarrow> FTSOSpecificConfig" where
  "spread_ftso a b =
     \<lparr>dataProviderMode = spread (Option.bind a dataProviderMode) (Option.bind b dataProviderMode),
      providerIdentity = spread (Option.bind a providerIdentity) (Option.bind b providerIdentity),
      privateKey = spread (Option.bind a privateKey) (Option.bind b privateKey),
      votePower = spread (Option.bind a votePower) (Option.bind b votePower),
      minSubmissionInterval =
        spread (Option.bind a minSubmissionInterval) (Option.bind b minSubmissionInterval)\<rparr>"

definition spread_fdc :: "FDCSpecificConfig option \<Rightarrow> FDCSpecificConfig option \<Rightarrow> FDCSpecificConfig" where
  "spread_fdc a b =
     \<lparr>maxConcurrentRequests =
        spread (Option.bind a maxConcurrentRequests) (Option.bind b maxConcurrentRequests),
      defaultTimeout = spread (Option.bind a defaultTimeout) (Option.bind b defaultTimeout),
      verifierNodes = spread (Option.bind a verifierNodes) (Option.bind b verifierNodes)\<rparr>"

definition spread_sc ::
  "StateConnectorSpecificConfig option \<Rightarrow> StateConnectorSpecificConfig option
     \<Rightarrow> StateConnectorSpecificConfig" where
  "spread_sc a b =
     \<lparr>attestationThreshold =
        spread (Option.bind a attestationThreshold) (Option.bind b attestationThreshold),
      maxQuerySize = spread (Option.bind a maxQuerySize) (Option.bind b maxQuerySize),
      responseTimeout = spread (Option.bind a responseTimeout) (Option.bind b responseTimeout)\<rparr>"

definition merge_config :: "FlareConnectionConfig \<Rightarrow> PartialFlareConnectionConfig \<Rightarrow> FlareConnectionConfig" where
  "merge_config old new =
     \<lparr>endpoint = (case new_endpoint new of Some v \<Rightarrow> v | None \<Rightarrow> endpoint old),
      apiKey = (case new_apiKey new of Some v \<Rightarrow> v | None \<Rightarrow> apiKey old),
      ftsoConfig = Some (spread_ftso (ftsoConfig old) (new_ftsoConfig new)),
      fdcConfig = Some (spread_fdc (fdcConfig old) (new_fdcConfig new)),
      stateConnectorConfig =
        Some (spread_sc (stateConnectorConfig old) (new_stateConnectorConfig new)),
      logLevel = spread (logLevel old) (new_logLevel new)\<rparr>"

definition updateConfig ::
  "FlareNetworkConnector \<Rightarrow> PartialFlareConnectionConfig \<Rightarrow> world
     \<Rightarrow> error + FlareNetworkConnector \<times> world" where
  "updateConfig s newConfig w =
     (let s1 = s\<lparr>config := merge_config (config s) newConfig\<rparr> in
      case disconnect s1 of
        Inl e \<Rightarrow> Inl e
      | Inr s2 \<Rightarrow> initialize s2 w)"

section \<open>Derived notions and example values\<close>

text \<open>The width of a band is the distance between its bounds.\<close>

definition band_width :: "band \<Rightarrow> real" where
  "band_width b = upper b - lower b"

text \<open>A world, and a connector of each kind as \<^verbatim>\<open>connect\<close> leaves it in that world.\<close>

definition example_world :: world where
  "example_world =
     \<lparr>clock = 1700000000000, late = (\<lambda>k. 0), timer_idx = 0,
      rand_src = (\<lambda>k. 1 / 2), rand_idx = 0, radix_str = (\<lambda>b x. ''0.8'')\<rparr>"

definition example_sc_config :: StateConnectorConfig where
  "example_sc_config =
     \<lparr>sc_endpoint = ''https://flare.example'', sc_apiKey = ''key'', sc_specific = None,
      sc_logLevel = None\<rparr>"

definition example_sc :: StateConnectorInterface where
  "example_sc =
     (case SC_connect (SC_new example_sc_config) example_world of
        Inr (c, w) \<Rightarrow> c
      | Inl e \<Rightarrow> SC_new example_sc_config)"

definition example_proof :: StateProof where
  "example_proof =
     \<lparr>sp_blockchain = ''ethereum'', sp_address = ''0xabc'', sp_requestId = ''req-1'',
      sp_state = Undefined,
      sp_proof = \<lparr>blockHeight = 1, blockHash = ''0x00'', proof_timestamp = 0,
                  proofType = ''MERKLE_PATRICIA'', signatures = [''0x01'', ''0x02'']\<rparr>,
      sp_timestamp = 0,
      sp_metadata = \<lparr>requestTimestamp = 0, attestationCount = 2,
                     requiredAttestations = Finite 3, finalized = True\<rparr>\<rparr>"

definition example_attestation :: AttestationResponse where
  "example_attestation =
     \<lparr>ar_requestId = ''req-2'', ar_blockchain = ''ethereum'', ar_address = ''0xabc'',
      ar_queryData = Undefined, ar_responseData = Undefined,
      ar_attestation =
        \<lparr>att_signatures = [(''0xa'', ''0x1''), (''0xb'', ''0x2''), (''0xc'', ''0x3'')],
         att_timestamp = 1700000000000, validUntil = 1700086400000\<rparr>,
      ar_metadata = \<lparr>responseTime = 600, source = ''ethereum'',
                     attestationSchema = ''ACCOUNT_STATE_SCHEMA_V1''\<rparr>\<rparr>"

definition example_ftso_config :: FTSOConnectionConfig where
  "example_ftso_config =
     \<lparr>ftso_endpoint = ''https://flare.example'', ftso_apiKey = ''key'',
      ftsoSpecificConfig = None, dataProviderSettings = None, ftso_logLevel = None\<rparr>"

definition example_ftso :: FTSOConnection where
  "example_ftso =
     (case FTSO_connect (FTSO_new example_ftso_config) example_world of
        Inr (c, w) \<Rightarrow> c
      | Inl e \<Rightarrow> FTSO_new example_ftso_config)"

definition example_fdc_config :: FDCConnectionConfig where
  "example_fdc_config =
     \<lparr>fdc_endpoint = ''https://flare.example'', fdc_apiKey = ''key'',
      fdcSpecificConfig = None, fdc_logLevel = None\<rparr>"

definition example_fdc :: FDCConnection where
  "example_fdc =
     (case FDC_connect (FDC_new example_fdc_config) example_world of
        Inr (c, w) \<Rightarrow> c
      | Inl e \<Rightarrow> FDC_new example_fdc_config)"

text \<open>The quote that the price transport of \<open>example_ftso\<close> delivers in \<open>example_world\<close>.\<close>

definition example_quote :: PriceData where
  "example_quote =
     \<lparr>symbol = ''BTC'', price = 25000, timestamp = 1700000000000,
      confidence = \<lparr>overall = 0.95, providers = 32\<rparr>,
      sourceInfo = \<lparr>source_providersCount = 32, consensusReached = True,
                    source_epoch = 9444444\<rparr>\<rparr>"

definition example_data :: ExternalData where
  "example_data =
     \<lparr>ed_blockchain = ''ETHEREUM'', dataPath = ''/ethereum/price/ETH'', ed_data = Undefined,
      ed_timestamp = 1700000000000,
      attestation = \<lparr>att_count = 7, threshold = 5, valid = True\<rparr>,
      ed_requestId = ''req-3''\<rparr>"



text \<open>No connection held by the supervisor carries a last-update time later than the clock:
  each was read from the clock when the connection was made.\<close>

definition timestamps_past :: "FlareNetworkConnector \<Rightarrow> world \<Rightarrow> bool" where
  "timestamps_past s w =
     ((case ftsoConnection s of Some c \<Rightarrow> ftso_lastUpdateTimestamp c \<le> clock w | None \<Rightarrow> True) \<and>
      (case fdcConnection s of Some c \<Rightarrow> fdc_lastUpdateTimestamp c \<le> clock w | None \<Rightarrow> True) \<and>
      (case stateConnector s of Some c \<Rightarrow> sc_lastUpdateTimestamp c \<le> clock w | None \<Rightarrow> True))"

definition example_config :: FlareConnectionConfig where
  "example_config =
     \<lparr>endpoint = ''https://flare.example'', apiKey = ''key'', ftsoConfig = None,
      fdcConfig = None, stateConnectorConfig = None, logLevel = None\<rparr>"

definition example_partial_config :: PartialFlareConnectionConfig where
  "example_partial_config =
     \<lparr>new_endpoint = Some ''https://flare2.example'', new_apiKey = None,
      new_ftsoConfig = None, new_fdcConfig = None, new_stateConnectorConfig = None,
      new_logLevel = None\<rparr>"

text \<open>The supervisor and the world that \<open>initialize\<close> leaves, from a new supervisor in
  \<open>example_world\<close>; the price connection it holds; and that connection once disconnected.\<close>

definition example_connector :: FlareNetworkConnector where
  "example_connector =
     (case initialize (FlareNetworkConnector_new example_config) example_world of
        Inr (s, w) \<Rightarrow> s
      | Inl e \<Rightarrow> FlareNetworkConnector_new example_config)"

definition example_connector_world :: world where
  "example_connector_world =
     (case initialize (FlareNetworkConnector_new example_config) example_world of
        Inr (s, w) \<Rightarrow> w
      | Inl e \<Rightarrow> example_world)"

definition example_supervised_ftso :: FTSOConnection where
  "example_supervised_ftso =
     (case getFTSOConnection example_connector of
        Inr c \<Rightarrow> c
      | Inl e \<Rightarrow> FTSO_new example_ftso_config)"

definition example_disconnected_ftso :: FTSOConnection where
  "example_disconnected_ftso =
     (case FTSO_disconnect example_supervised_ftso of
        Inr c \<Rightarrow> c
      | Inl e \<Rightarrow> example_supervised_ftso)"

text \<open>A proof whose \<open>requiredAttestations\<close> is \<^verbatim>\<open>NaN\<close>; a transport that answers with 1500
  signatures, a connected state connector with that transport, and the proof that
  \<open>getExternalState\<close> returns from it.\<close>

definition example_nan_proof :: StateProof where
  "example_nan_proof =
     example_proof\<lparr>sp_metadata := (sp_metadata example_proof)\<lparr>requiredAttestations := NaN\<rparr>\<rparr>"






section \<open>Rounding to doubles\<close>



























section \<open>The state connector\<close>

lemma example_sc_connected: "SC_checkConnection example_sc = Inr ()"
  by (simp add: example_sc_def SC_connect_def SC_new_def rethrow_def SC_checkConnection_def Let_def)


lemma not_js_ge: "\<not> js_ge (Finite a) b \<longleftrightarrow> js_lt (Finite a) b \<or> b = NaN"
  by (cases b) auto

text \<open>
  Claim C2, as amended. On a connected state connector, \<open>submitStateProof\<close> returns a
  result for every proof: with \<open>success = False\<close> and the error
  \<open>Insufficient attestation signatures\<close> when the proof carries fewer signatures than
  \<open>requiredAttestations\<close> or \<open>requiredAttestations\<close> is \<^verbatim>\<open>NaN\<close>, and with \<open>success = True\<close>
  and no error otherwise; \<open>success\<close> is the value of \<^verbatim>\<open>signatures.length >= requiredAttestations\<close>.
\<close>

theorem submitStateProof_outcome:
  assumes "SC_checkConnection c = Inr ()"
  shows "\<exists>r w'. submitStateProof c p w = Inr (r, w') \<and>
           (if js_lt (Finite (of_nat (length (signatures (sp_proof p)))))
                 (requiredAttestations (sp_metadata p))
               \<or> requiredAttestations (sp_metadata p) = NaN
            then success r = False
                 \<and> submission_error r = Some ''Insufficient attestation signatures''
            else success r = True \<and> submission_error r = None) \<and>
           (success r \<longleftrightarrow>
              js_ge (Finite (of_nat (length (signatures (sp_proof p)))))
                (requiredAttestations (sp_metadata p)))"
  using assms
  by (simp add: submitStateProof_def rethrow_def Let_def not_js_ge [symmetric])

theorem submitStateProof_outcome_witness:
  "SC_checkConnection example_sc = Inr () \<and>
   (\<exists>r w'. submitStateProof example_sc example_proof example_world = Inr (r, w') \<and>
      success r = False \<and> submission_error r = Some ''Insufficient attestation signatures'')"
  using submitStateProof_outcome [OF example_sc_connected, of example_proof example_world]
    example_sc_connected
  by (auto simp add: example_proof_def)

text \<open>
  The claim C2 as first stated, with failure exactly when
  \<^verbatim>\<open>signatures.length < requiredAttestations\<close>, fails for a proof whose
  \<open>requiredAttestations\<close> is \<^verbatim>\<open>NaN\<close>: \<^verbatim>\<open>2 < NaN\<close> is false, and so is \<^verbatim>\<open>2 >= NaN\<close>, so the
  submission is reported as failed.
\<close>

theorem submitStateProof_outcome_counterexample:
  "SC_checkConnection example_sc = Inr () \<and>
   length (signatures (sp_proof example_nan_proof)) = 2 \<and>
   requiredAttestations (sp_metadata example_nan_proof) = NaN \<and>
   \<not> js_lt (Finite 2) NaN \<and>
   submitStateProof example_sc example_nan_proof example_world
     = Inr (\<lparr>success = False, epoch = 9444444, assetSymbol = None,
             submissionTimestamp = 1700000000400, transactionHash = ''0x8'',
             submission_error = Some ''Insufficient attestation signatures''\<rparr>,
            drawn 1 (setTimeout 400 example_world))"
  using example_sc_connected
  by (simp add: submitStateProof_def rethrow_def Let_def example_nan_proof_def example_proof_def
      setTimeout_def Date_now_def example_world_def hex_token_def rnd_def drawn_def)





text \<open>
  Claim C4. On a connected state connector, \<open>verifyAttestation\<close> returns true exactly when
  \<open>validUntil\<close> is later than the current time and at least three signatures are present;
  so it returns false for an expired attestation whatever the number of signatures, and
  false for fewer than three signatures whatever the expiry.
\<close>

theorem verifyAttestation_iff:
  assumes "SC_checkConnection c = Inr ()"
  shows "verifyAttestation c a w
           = Inr (validUntil (ar_attestation a) > of_int (Date_now w)
                  \<and> length (att_signatures (ar_attestation a)) \<ge> 3)
         \<and> (validUntil (ar_attestation a) < of_int (Date_now w)
              \<longrightarrow> verifyAttestation c a w = Inr False)
         \<and> (length (att_signatures (ar_attestation a)) < 3
              \<longrightarrow> verifyAttestation c a w = Inr False)"
  using assms by (auto simp add: verifyAttestation_def rethrow_def)

theorem verifyAttestation_iff_witness:
  "SC_checkConnection example_sc = Inr () \<and>
   verifyAttestation example_sc example_attestation example_world = Inr True"
  using verifyAttestation_iff [OF example_sc_connected, of example_attestation example_world]
    example_sc_connected
  by (simp add: example_attestation_def example_world_def Date_now_def)

section \<open>The price oracle connection\<close>

lemma confidence_band_contains:
  assumes "0 \<le> p" and "0 \<le> v" and "0 \<le> m"
  shows "lower (confidence_band p v m l) \<le> p \<and> p \<le> upper (confidence_band p v m l)"
proof -
  have "0 \<le> p * (v * m)" using assms by simp
  then show ?thesis by (simp add: confidence_band_def algebra_simps)
qed

lemma confidence_band_width:
  "band_width (confidence_band p v m l) = 2 * (p * v) * m"
  by (simp add: confidence_band_def band_width_def algebra_simps)

lemma confidence_band_width_mono:
  assumes "0 \<le> p" and "0 \<le> v" and "m \<le> m'"
  shows "band_width (confidence_band p v m l) \<le> band_width (confidence_band p v m' l')"
proof -
  have "0 \<le> 2 * (p * v)" using assms by simp
  then have "2 * (p * v) * m \<le> 2 * (p * v) * m'"
    using assms(3) by (rule mult_left_mono[rotated])
  then show ?thesis by (simp only: confidence_band_width)
qed

lemma getLatestPrice_connected:
  "getLatestPrice c s w = Inr r \<Longrightarrow> FTSO_checkConnection c = Inr ()"
  by (cases "FTSO_checkConnection c") (simp_all add: getLatestPrice_def)

text \<open>
  Claim C1. When the quote that \<open>getLatestPrice\<close> delivers has a price \<open>p \<ge> 0\<close> and an
  overall confidence \<open>c\<close> in \<open>[0, 1]\<close>, \<open>getConfidenceInterval\<close> returns the four bands with
  bounds \<open>p * (1 - v * m)\<close> and \<open>p * (1 + v * m)\<close>, where \<open>v = 1 - c\<close> and \<open>m\<close> is 0.67, 1.28,
  1.96 and 2.58 for the levels 0.5, 0.8, 0.95 and 0.99. The current price lies in every
  band, and the width of the bands does not decrease from one level to the next.
\<close>

theorem getConfidenceInterval_bands:
  assumes quote: "getLatestPrice c asset_symbol w = Inr (q, w1)"
    and price: "0 \<le> price q"
    and conf: "0 \<le> overall (confidence q)" "overall (confidence q) \<le> 1"
  shows "\<exists>ci. getConfidenceInterval c asset_symbol w = Inr (ci, w1) \<and>
           currentPrice ci = price q \<and>
           interval50 (intervals ci)
             = \<lparr>lower = price q * (1 - (1 - overall (confidence q)) * 0.67),
                upper = price q * (1 + (1 - overall (confidence q)) * 0.67), level = 0.5\<rparr> \<and>
           interval80 (intervals ci)
             = \<lparr>lower = price q * (1 - (1 - overall (confidence q)) * 1.28),
                upper = price q * (1 + (1 - overall (confidence q)) * 1.28), level = 0.8\<rparr> \<and>
           interval95 (intervals ci)
             = \<lparr>lower = price q * (1 - (1 - overall (confidence q)) * 1.96),
                upper = price q * (1 + (1 - overall (confidence q)) * 1.96), level = 0.95\<rparr> \<and>
           interval99 (intervals ci)
             = \<lparr>lower = price q * (1 - (1 - overall (confidence q)) * 2.58),
                upper = price q * (1 + (1 - overall (confidence q)) * 2.58), level = 0.99\<rparr> \<and>
           (\<forall>b \<in> {interval50 (intervals ci), interval80 (intervals ci),
                   interval95 (intervals ci), interval99 (intervals ci)}.
              lower b \<le> currentPrice ci \<and> currentPrice ci \<le> upper b) \<and>
           band_width (interval50 (intervals ci)) \<le> band_width (interval80 (intervals ci)) \<and>
           band_width (interval80 (intervals ci)) \<le> band_width (interval95 (intervals ci)) \<and>
           band_width (interval95 (intervals ci)) \<le> band_width (interval99 (intervals ci))"
proof -
  let ?p = "price q" and ?v = "1 - overall (confidence q)"
  let ?ci = "\<lparr>ci_symbol = asset_symbol, ci_timestamp = timestamp q, currentPrice = ?p,
              intervals =
                \<lparr>interval50 = confidence_band ?p ?v 0.67 0.5,
                 interval80 = confidence_band ?p ?v 1.28 0.8,
                 interval95 = confidence_band ?p ?v 1.96 0.95,
                 interval99 = confidence_band ?p ?v 2.58 0.99\<rparr>\<rparr>"
  have v: "0 \<le> ?v" using conf by simp
  have run: "getConfidenceInterval c asset_symbol w = Inr (?ci, w1)"
    using quote getLatestPrice_connected [OF quote]
    by (simp add: getConfidenceInterval_def rethrow_def Let_def)
  have inside: "lower (confidence_band ?p ?v m l) \<le> ?p \<and> ?p \<le> upper (confidence_band ?p ?v m l)"
    if "0 \<le> m" for m l
    using confidence_band_contains [OF price v that] .
  have mono: "band_width (confidence_band ?p ?v m l) \<le> band_width (confidence_band ?p ?v m' l')"
    if "m \<le> m'" for m m' l l'
    using confidence_band_width_mono [OF price v that] .
  have shape: "confidence_band ?p ?v m l
                 = \<lparr>lower = ?p * (1 - ?v * m), upper = ?p * (1 + ?v * m), level = l\<rparr>" for m l
    by (simp add: confidence_band_def)
  show ?thesis
    apply (rule exI [of _ ?ci])
    apply (simp only: run)
    apply (simp add: inside mono del: One_nat_def)
    apply (simp add: shape)
    done
qed

lemma example_ftso_connected: "FTSO_checkConnection example_ftso = Inr ()"
  by (simp add: example_ftso_def FTSO_connect_def FTSO_new_def rethrow_def
      FTSO_checkConnection_def updateProviderRegistry_def Let_def)

lemma example_ftso_client: "ftso_client example_ftso = Some ftso_mock_getPriceData"
  by (simp add: example_ftso_def FTSO_connect_def FTSO_new_def rethrow_def
      updateProviderRegistry_def Let_def)

lemma example_quote_run:
  "getLatestPrice example_ftso ''BTC'' example_world = Inr (example_quote, drawn 1 example_world)"
  by (simp add: getLatestPrice_def example_ftso_connected example_ftso_client rethrow_def
      ftso_mock_getPriceData_def example_quote_def example_world_def rnd_def drawn_def
      Date_now_def)

theorem getConfidenceInterval_bands_witness:
  "getLatestPrice example_ftso ''BTC'' example_world = Inr (example_quote, drawn 1 example_world) \<and>
   (0::real) \<le> price example_quote \<and>
   0 \<le> overall (confidence example_quote) \<and> overall (confidence example_quote) \<le> 1 \<and>
   (\<exists>ci. getConfidenceInterval example_ftso ''BTC'' example_world
            = Inr (ci, drawn 1 example_world) \<and>
      currentPrice ci = 25000 \<and>
      interval50 (intervals ci) = \<lparr>lower = 24162.5, upper = 25837.5, level = 0.5\<rparr> \<and>
      interval99 (intervals ci) = \<lparr>lower = 21775, upper = 28225, level = 0.99\<rparr>)"
proof -
  have h: "(0::real) \<le> price example_quote" "0 \<le> overall (confidence example_quote)"
    "overall (confidence example_quote) \<le> 1"
    by (simp_all add: example_quote_def)
  show ?thesis
    using getConfidenceInterval_bands [OF example_quote_run h] example_quote_run h
    by (auto simp add: example_quote_def)
qed

section \<open>The data attestation connection\<close>

lemma example_fdc_connected: "FDC_checkConnection example_fdc = Inr ()"
  by (simp add: example_fdc_def FDC_connect_def FDC_new_def rethrow_def
      FDC_checkConnection_def Let_def)

lemma example_fdc_catalog: "supportedBlockchains example_fdc = static_catalog"
  by (simp add: example_fdc_def FDC_connect_def FDC_new_def rethrow_def Let_def)

lemma getBlockchainFinality_cases:
  "(if \<exists>chain \<in> set (supportedBlockchains c). chain_matches b chain
    then \<exists>i < length (supportedBlockchains c).
           chain_matches b (supportedBlockchains c ! i) \<and>
           (\<forall>j < i. \<not> chain_matches b (supportedBlockchains c ! j)) \<and>
           getBlockchainFinality c b = averageFinality (supportedBlockchains c ! i)
    else getBlockchainFinality c b = 3600000)"
proof (cases "find (chain_matches b) (supportedBlockchains c)")
  case None
  then have "\<not> (\<exists>chain \<in> set (supportedBlockchains c). chain_matches b chain)"
    by (simp add: find_None_iff)
  moreover have "getBlockchainFinality c b = 3600000"
    using None by (simp add: getBlockchainFinality_def)
  ultimately show ?thesis by simp
next
  case (Some chain)
  then obtain i where i: "i < length (supportedBlockchains c)"
    "chain_matches b (supportedBlockchains c ! i)" "chain = supportedBlockchains c ! i"
    "\<forall>j < i. \<not> chain_matches b (supportedBlockchains c ! j)"
    by (auto simp add: find_Some_iff)
  then have "\<exists>chain \<in> set (supportedBlockchains c). chain_matches b chain"
    using nth_mem by blast
  moreover have "getBlockchainFinality c b = averageFinality (supportedBlockchains c ! i)"
    using Some i(3) by (simp add: getBlockchainFinality_def)
  ultimately show ?thesis using i by auto
qed

text \<open>
  Claim C5. On a connected data connection, \<open>verifyExternalData\<close> returns a result for
  every record: \<open>verified\<close> holds exactly when the record's \<open>valid\<close> flag is set and its
  signature count reaches its threshold; the confidence is the quotient
  \<open>signatures / (threshold * 1.5)\<close> when verified and \<open>0\<close> otherwise; and \<open>dataFinality\<close> is
  the \<open>averageFinality\<close> of the first catalog entry whose chain id equals the record's
  blockchain or whose name equals it up to letter case, or 3600000 ms when there is none.
\<close>

theorem verifyExternalData_result:
  assumes "FDC_checkConnection c = Inr ()"
  shows "\<exists>r w'. verifyExternalData c d w = Inr (r, w') \<and>
           (verified r \<longleftrightarrow>
              valid (attestation d) \<and> att_count (attestation d) \<ge> threshold (attestation d)) \<and>
           (verified r \<longrightarrow>
              vr_confidence r
                = js_divide (att_count (attestation d)) (threshold (attestation d) * 1.5)) \<and>
           (verified r \<and> threshold (attestation d) \<noteq> 0 \<longrightarrow>
              vr_confidence r
                = Finite (att_count (attestation d) / (threshold (attestation d) * 1.5))) \<and>
           (\<not> verified r \<longrightarrow> vr_confidence r = Finite 0) \<and>
           (if \<exists>chain \<in> set (supportedBlockchains c).
                 chainId chain = ed_blockchain d
                 \<or> toLowerCase (chain_name chain) = toLowerCase (ed_blockchain d)
            then \<exists>i < length (supportedBlockchains c).
                   chain_matches (ed_blockchain d) (supportedBlockchains c ! i) \<and>
                   (\<forall>j < i. \<not> chain_matches (ed_blockchain d) (supportedBlockchains c ! j)) \<and>
                   dataFinality (details r) = averageFinality (supportedBlockchains c ! i)
            else dataFinality (details r) = 3600000)"
proof -
  let ?ok = "valid (attestation d) \<and> att_count (attestation d) \<ge> threshold (attestation d)"
  obtain r w' where run: "verifyExternalData c d w = Inr (r, w')"
    and v: "verified r = ?ok"
    and conf: "vr_confidence r
                 = (if ?ok then js_divide (att_count (attestation d)) (threshold (attestation d) * 1.5)
                    else Finite 0)"
    and fin: "dataFinality (details r) = getBlockchainFinality c (ed_blockchain d)"
    using assms by (simp add: verifyExternalData_def rethrow_def Let_def)
  have fin': "(if \<exists>chain \<in> set (supportedBlockchains c).
                 chainId chain = ed_blockchain d
                 \<or> toLowerCase (chain_name chain) = toLowerCase (ed_blockchain d)
            then \<exists>i < length (supportedBlockchains c).
                   chain_matches (ed_blockchain d) (supportedBlockchains c ! i) \<and>
                   (\<forall>j < i. \<not> chain_matches (ed_blockchain d) (supportedBlockchains c ! j)) \<and>
                   dataFinality (details r) = averageFinality (supportedBlockchains c ! i)
            else dataFinality (details r) = 3600000)"
    using getBlockchainFinality_cases [of c "ed_blockchain d"]
    unfolding fin chain_matches_def [of "ed_blockchain d", symmetric] by simp
  have div: "js_divide a b = Finite (a / b)" if "b \<noteq> 0" for a b
    using that by (simp add: js_divide_def)
  show ?thesis
    apply (rule exI [of _ r], rule exI [of _ w'])
    apply (intro conjI)
         apply (rule run)
        apply (simp add: v)
       apply (simp add: v conf)
      apply (simp add: v conf div)
     apply (simp add: v conf)
    apply (rule fin')
    done
qed

theorem verifyExternalData_result_witness:
  "FDC_checkConnection example_fdc = Inr () \<and>
   (\<exists>r w'. verifyExternalData example_fdc example_data example_world = Inr (r, w') \<and>
      verified r \<and> vr_confidence r = Finite (14 / 15) \<and> dataFinality (details r) = 180000)"
proof -
  have m: "\<exists>chain \<in> set (supportedBlockchains example_fdc).
             chainId chain = ed_blockchain example_data
             \<or> toLowerCase (chain_name chain) = toLowerCase (ed_blockchain example_data)"
    by (simp add: example_fdc_catalog static_catalog_def example_data_def toLowerCase_def
        lower_char_def char_of_def bit_iff_odd)
  have first: "i = 1" if "i < length static_catalog" "chain_matches ''ETHEREUM'' (static_catalog ! i)"
    for i
  proof -
    from that(1) have "i \<in> {0, 1, 2, 3, 4}" by (auto simp add: static_catalog_def)
    with that(2) show ?thesis
      by (auto simp add: static_catalog_def chain_matches_def toLowerCase_def
          lower_char_def char_of_def bit_iff_odd)
  qed
  have fin: "averageFinality (static_catalog ! 1) = 180000"
    by (simp add: static_catalog_def)
  obtain r w' where run: "verifyExternalData example_fdc example_data example_world = Inr (r, w')"
    and v: "verified r \<longleftrightarrow> valid (attestation example_data)
              \<and> att_count (attestation example_data) \<ge> threshold (attestation example_data)"
    and conf: "verified r \<and> threshold (attestation example_data) \<noteq> 0 \<longrightarrow>
              vr_confidence r
                = Finite (att_count (attestation example_data)
                          / (threshold (attestation example_data) * 1.5))"
    and f: "\<exists>i < length (supportedBlockchains example_fdc).
                   chain_matches (ed_blockchain example_data) (supportedBlockchains example_fdc ! i) \<and>
                   dataFinality (details r) = averageFinality (supportedBlockchains example_fdc ! i)"
    using verifyExternalData_result [OF example_fdc_connected, of example_data example_world] m
    by auto
  have v': "verified r" using v by (simp add: example_data_def)
  then have "vr_confidence r = Finite (14 / 15)" using conf by (simp add: example_data_def)
  moreover have "dataFinality (details r) = 180000"
    using f first fin by (auto simp add: example_fdc_catalog example_data_def)
  ultimately show ?thesis using run v' example_fdc_connected by blast
qed

section \<open>Status of a disconnected connection\<close>

text \<open>
  Claim C7. \<open>getStatus\<close> of each of the three connections always returns a status and never
  throws. When the connection is not connected, in particular when it is newly constructed
  and when \<open>disconnect\<close> has returned, the status is \<open>disconnected_status\<close>: \<open>connected\<close> is
  false and no other field is present.
\<close>

theorem getStatus_disconnected:
  "(\<exists>st w'. FTSO_getStatus fc w = Inr (st, w')) \<and>
   (\<exists>st w'. FDC_getStatus dc w = Inr (st, w')) \<and>
   (\<exists>st w'. SC_getStatus sc w = Inr (st, w')) \<and>
   (\<not> ftso_isConnected fc \<longrightarrow> FTSO_getStatus fc w = Inr (disconnected_status, w)) \<and>
   (\<not> fdc_isConnected dc \<longrightarrow> FDC_getStatus dc w = Inr (disconnected_status, w)) \<and>
   (\<not> sc_isConnected sc \<longrightarrow> SC_getStatus sc w = Inr (disconnected_status, w)) \<and>
   FTSO_getStatus (FTSO_new fcfg) w = Inr (disconnected_status, w) \<and>
   FDC_getStatus (FDC_new dcfg) w = Inr (disconnected_status, w) \<and>
   SC_getStatus (SC_new scfg) w = Inr (disconnected_status, w) \<and>
   (\<exists>fc'. FTSO_disconnect fc = Inr fc' \<and> FTSO_getStatus fc' w = Inr (disconnected_status, w)) \<and>
   (\<exists>dc'. FDC_disconnect dc = Inr dc' \<and> FDC_getStatus dc' w = Inr (disconnected_status, w)) \<and>
   (\<exists>sc'. SC_disconnect sc = Inr sc' \<and> SC_getStatus sc' w = Inr (disconnected_status, w)) \<and>
   disconnected_status =
     \<lparr>connected = False, latency = None, lastUpdate = None, status_error = None,
      providersCount = None, activeDataFeeds = None, supportedChainsCount = None,
      activeRequests = None\<rparr>"
proof (intro conjI)
  show "\<exists>st w'. FTSO_getStatus fc w = Inr (st, w')"
    by (simp add: FTSO_getStatus_def catch_def)
  show "\<exists>st w'. FDC_getStatus dc w = Inr (st, w')"
    by (simp add: FDC_getStatus_def catch_def)
  show "\<exists>st w'. SC_getStatus sc w = Inr (st, w')"
    by (simp add: SC_getStatus_def catch_def)
  show "\<not> ftso_isConnected fc \<longrightarrow> FTSO_getStatus fc w = Inr (disconnected_status, w)"
    by (simp add: FTSO_getStatus_def)
  show "\<not> fdc_isConnected dc \<longrightarrow> FDC_getStatus dc w = Inr (disconnected_status, w)"
    by (simp add: FDC_getStatus_def)
  show "\<not> sc_isConnected sc \<longrightarrow> SC_getStatus sc w = Inr (disconnected_status, w)"
    by (simp add: SC_getStatus_def)
  show "FTSO_getStatus (FTSO_new fcfg) w = Inr (disconnected_status, w)"
    by (simp add: FTSO_getStatus_def FTSO_new_def)
  show "FDC_getStatus (FDC_new dcfg) w = Inr (disconnected_status, w)"
    by (simp add: FDC_getStatus_def FDC_new_def)
  show "SC_getStatus (SC_new scfg) w = Inr (disconnected_status, w)"
    by (simp add: SC_getStatus_def SC_new_def)
  show "\<exists>fc'. FTSO_disconnect fc = Inr fc' \<and> FTSO_getStatus fc' w = Inr (disconnected_status, w)"
    by (simp add: FTSO_disconnect_def FTSO_getStatus_def rethrow_def)
  show "\<exists>dc'. FDC_disconnect dc = Inr dc' \<and> FDC_getStatus dc' w = Inr (disconnected_status, w)"
    by (simp add: FDC_disconnect_def FDC_getStatus_def rethrow_def)
  show "\<exists>sc'. SC_disconnect sc = Inr sc' \<and> SC_getStatus sc' w = Inr (disconnected_status, w)"
    by (simp add: SC_disconnect_def SC_getStatus_def rethrow_def)
  show "disconnected_status =
     \<lparr>connected = False, latency = None, lastUpdate = None, status_error = None,
      providersCount = None, activeDataFeeds = None, supportedChainsCount = None,
      activeRequests = None\<rparr>"
    by (simp add: disconnected_status_def)
qed

theorem getStatus_disconnected_witness:
  "\<not> ftso_isConnected (FTSO_new example_ftso_config) \<and>
   \<not> fdc_isConnected (FDC_new example_fdc_config) \<and>
   \<not> sc_isConnected (SC_new example_sc_config) \<and>
   FTSO_getStatus (FTSO_new example_ftso_config) example_world
     = Inr (disconnected_status, example_world) \<and>
   FDC_getStatus (FDC_new example_fdc_config) example_world
     = Inr (disconnected_status, example_world) \<and>
   SC_getStatus (SC_new example_sc_config) example_world
     = Inr (disconnected_status, example_world)"
  using getStatus_disconnected [of "FTSO_new example_ftso_config" example_world
      "FDC_new example_fdc_config" "SC_new example_sc_config"]
  by (simp add: FTSO_new_def FDC_new_def SC_new_def)

lemma isBlockchainSupported_connected:
  "FDC_checkConnection c = Inr () \<Longrightarrow>
   isBlockchainSupported c b = Inr (list_ex (chain_matches b) (supportedBlockchains c))"
  by (simp add: isBlockchainSupported_def)

lemma FDC_connect_result:
  "\<exists>c' w'. FDC_connect c w = Inr (c', w') \<and> FDC_checkConnection c' = Inr () \<and>
     supportedBlockchains c' = static_catalog"
  by (simp add: FDC_connect_def rethrow_def Let_def FDC_checkConnection_def)

section \<open>The catalog of supported chains\<close>

text \<open>
  Claim C8. On a connected data connection, \<open>isBlockchainSupported\<close> returns true exactly
  when some catalog entry has the argument as its chain id or has a name equal to it up
  to letter case. With the catalog that \<open>connect\<close> installs, \<open>ethereum\<close> and \<open>eth-mainnet\<close>
  are both supported, through the one entry named \<open>Ethereum\<close>, and \<open>dogecoin\<close> is not.
\<close>

theorem isBlockchainSupported_iff:
  "(FDC_checkConnection c = Inr () \<longrightarrow>
      isBlockchainSupported c b
        = Inr (\<exists>chain \<in> set (supportedBlockchains c).
                 chainId chain = b \<or> toLowerCase (chain_name chain) = toLowerCase b)) \<and>
   (\<exists>c' w'. FDC_connect c0 w = Inr (c', w') \<and>
      isBlockchainSupported c' ''ethereum'' = Inr True \<and>
      isBlockchainSupported c' ''eth-mainnet'' = Inr True \<and>
      isBlockchainSupported c' ''dogecoin'' = Inr False \<and>
      filter (chain_matches ''ethereum'') (supportedBlockchains c')
        = filter (chain_matches ''eth-mainnet'') (supportedBlockchains c') \<and>
      map chain_name (filter (chain_matches ''ethereum'') (supportedBlockchains c'))
        = [''Ethereum''])"
proof (intro conjI impI)
  assume "FDC_checkConnection c = Inr ()"
  then show "isBlockchainSupported c b
        = Inr (\<exists>chain \<in> set (supportedBlockchains c).
                 chainId chain = b \<or> toLowerCase (chain_name chain) = toLowerCase b)"
    by (simp add: isBlockchainSupported_connected list_ex_iff chain_matches_def)
next
  obtain c' w' where run: "FDC_connect c0 w = Inr (c', w')"
    and conn: "FDC_checkConnection c' = Inr ()"
    and cat: "supportedBlockchains c' = static_catalog"
    using FDC_connect_result by blast
  have e1: "filter (chain_matches ''ethereum'') static_catalog = [static_catalog ! 1]"
    by (simp add: static_catalog_def chain_matches_def toLowerCase_def lower_char_def
        char_of_def bit_iff_odd)
  have e2: "filter (chain_matches ''eth-mainnet'') static_catalog = [static_catalog ! 1]"
    by (simp add: static_catalog_def chain_matches_def toLowerCase_def lower_char_def
        char_of_def bit_iff_odd)
  have e3: "filter (chain_matches ''dogecoin'') static_catalog = []"
    by (simp add: static_catalog_def chain_matches_def toLowerCase_def lower_char_def
        char_of_def bit_iff_odd)
  have ex: "list_ex P xs \<longleftrightarrow> filter P xs \<noteq> []" for P :: "SupportedBlockchain \<Rightarrow> bool" and xs
    by (simp add: list_ex_iff filter_empty_conv)
  show "\<exists>c' w'. FDC_connect c0 w = Inr (c', w') \<and>
      isBlockchainSupported c' ''ethereum'' = Inr True \<and>
      isBlockchainSupported c' ''eth-mainnet'' = Inr True \<and>
      isBlockchainSupported c' ''dogecoin'' = Inr False \<and>
      filter (chain_matches ''ethereum'') (supportedBlockchains c')
        = filter (chain_matches ''eth-mainnet'') (supportedBlockchains c') \<and>
      map chain_name (filter (chain_matches ''ethereum'') (supportedBlockchains c'))
        = [''Ethereum'']"
    apply (rule exI [of _ c'], rule exI [of _ w'])
    apply (simp only: run isBlockchainSupported_connected [OF conn] cat ex e1 e2 e3)
    apply (simp add: static_catalog_def)
    done
qed

theorem isBlockchainSupported_iff_witness:
  "FDC_checkConnection example_fdc = Inr () \<and>
   isBlockchainSupported example_fdc ''XRP LEDGER'' = Inr True"
proof -
  have "\<exists>chain \<in> set (supportedBlockchains example_fdc).
          chainId chain = ''XRP LEDGER'' \<or> toLowerCase (chain_name chain) = toLowerCase ''XRP LEDGER''"
    by (simp add: example_fdc_catalog static_catalog_def toLowerCase_def lower_char_def
        char_of_def bit_iff_odd)
  then show ?thesis
    using isBlockchainSupported_iff [where c = example_fdc and b = "''XRP LEDGER''"]
      example_fdc_connected
    by simp
qed

section \<open>Historical prices\<close>





















section \<open>The supervisor\<close>

lemma FTSO_connect_result:
  "FTSO_connect c w =
     Inr (c\<lparr>ftso_client := Some ftso_mock_getPriceData,
            providerRegistry :=
              fold (\<lambda>provider reg. Map_set (provider_id provider) provider reg)
                mockProviders (providerRegistry c),
            ftso_lastUpdateTimestamp := clock (setTimeout 500 w),
            ftso_isConnected := True\<rparr>, setTimeout 500 w)"
  by (simp add: FTSO_connect_def rethrow_def Let_def updateProviderRegistry_def Date_now_def)

lemma FDC_connect_eq:
  "FDC_connect c w =
     Inr (c\<lparr>fdc_client := Some fdc_mock_getExternalData,
            supportedBlockchains := static_catalog,
            fdc_isConnected := True,
            fdc_lastUpdateTimestamp := clock (setTimeout 700 w)\<rparr>, setTimeout 700 w)"
  by (simp add: FDC_connect_def rethrow_def Let_def Date_now_def)

lemma SC_connect_eq:
  "SC_connect c w =
     Inr (c\<lparr>sc_client := Some sc_mock_getStateProof,
            sc_isConnected := True,
            sc_lastUpdateTimestamp := clock (setTimeout 600 w)\<rparr>, setTimeout 600 w)"
  by (simp add: SC_connect_def rethrow_def Let_def Date_now_def)

lemma clock_setTimeout: "clock w + int ms \<le> clock (setTimeout ms w)"
  by (simp add: setTimeout_def)

lemma connectToFTSO_result:
  "\<exists>fc. connectToFTSO s w = Inr (fc, setTimeout 500 w) \<and>
     ftso_isConnected fc \<and> ftso_client fc \<noteq> None \<and>
     ftso_lastUpdateTimestamp fc = clock (setTimeout 500 w) \<and>
     dataProviderSettings (ftso_config fc) = None"
  by (simp add: connectToFTSO_def FTSO_connect_result rethrow_def FTSO_new_def)

lemma connectToFDC_result:
  "\<exists>dc. connectToFDC s w = Inr (dc, setTimeout 700 w) \<and>
     fdc_isConnected dc \<and> fdc_lastUpdateTimestamp dc = clock (setTimeout 700 w)"
  by (simp add: connectToFDC_def FDC_connect_eq rethrow_def FDC_new_def)

lemma connectToStateConnector_result:
  "\<exists>sc. connectToStateConnector s w = Inr (sc, setTimeout 600 w) \<and>
     sc_isConnected sc \<and> sc_lastUpdateTimestamp sc = clock (setTimeout 600 w)"
  by (simp add: connectToStateConnector_def SC_connect_eq rethrow_def SC_new_def)

lemma initialize_result:
  "\<exists>fc dc sc.
     initialize s w
       = Inr (s\<lparr>ftsoConnection := Some fc, fdcConnection := Some dc, stateConnector := Some sc\<rparr>,
              setTimeout 600 (setTimeout 700 (setTimeout 500 w))) \<and>
     ftso_isConnected fc \<and> ftso_client fc \<noteq> None \<and>
     ftso_lastUpdateTimestamp fc = clock (setTimeout 500 w) \<and>
     dataProviderSettings (ftso_config fc) = None \<and>
     fdc_isConnected dc \<and>
     fdc_lastUpdateTimestamp dc = clock (setTimeout 700 (setTimeout 500 w)) \<and>
     sc_isConnected sc \<and>
     sc_lastUpdateTimestamp sc = clock (setTimeout 600 (setTimeout 700 (setTimeout 500 w)))"
proof -
  let ?w1 = "setTimeout 500 w"
  let ?w2 = "setTimeout 700 ?w1"
  obtain fc where fc: "connectToFTSO s w = Inr (fc, ?w1)"
    "ftso_isConnected fc" "ftso_client fc \<noteq> None"
    "ftso_lastUpdateTimestamp fc = clock ?w1" "dataProviderSettings (ftso_config fc) = None"
    using connectToFTSO_result by blast
  obtain dc where dc: "connectToFDC (s\<lparr>ftsoConnection := Some fc\<rparr>) ?w1 = Inr (dc, ?w2)"
    "fdc_isConnected dc" "fdc_lastUpdateTimestamp dc = clock ?w2"
    using connectToFDC_result by blast
  obtain sc where sc:
    "connectToStateConnector (s\<lparr>ftsoConnection := Some fc, fdcConnection := Some dc\<rparr>) ?w2
       = Inr (sc, setTimeout 600 ?w2)"
    "sc_isConnected sc" "sc_lastUpdateTimestamp sc = clock (setTimeout 600 ?w2)"
    using connectToStateConnector_result by blast
  have "initialize s w
          = Inr (s\<lparr>ftsoConnection := Some fc, fdcConnection := Some dc,
                   stateConnector := Some sc\<rparr>, setTimeout 600 ?w2)"
    by (simp add: initialize_def fc(1) dc(1) sc(1) rethrow_def Let_def)
  then show ?thesis using fc dc sc by blast
qed

lemma disconnect_result:
  "disconnect s = Inr (s\<lparr>ftsoConnection := None, fdcConnection := None, stateConnector := None\<rparr>)"
proof -
  have f: "\<exists>r. (case ftsoConnection s of Some c \<Rightarrow> map_sum id Some (FTSO_disconnect c)
                                     | None \<Rightarrow> Inr None) = Inr r"
    by (cases "ftsoConnection s") (simp_all add: FTSO_disconnect_def rethrow_def)
  have d: "\<exists>r. (case fdcConnection s of Some c \<Rightarrow> map_sum id Some (FDC_disconnect c)
                                     | None \<Rightarrow> Inr None) = Inr r"
    by (cases "fdcConnection s") (simp_all add: FDC_disconnect_def rethrow_def)
  have c: "\<exists>r. (case stateConnector s of Some c \<Rightarrow> map_sum id Some (SC_disconnect c)
                                     | None \<Rightarrow> Inr None) = Inr r"
    by (cases "stateConnector s") (simp_all add: SC_disconnect_def rethrow_def)
  from f d c show ?thesis
    by (auto simp add: disconnect_def rethrow_def)
qed

lemma status_of_connected:
  assumes "ftsoConnection s = Some fc" "ftso_isConnected fc"
    and "fdcConnection s = Some dc" "fdc_isConnected dc"
    and "stateConnector s = Some sc" "sc_isConnected sc"
  shows "\<exists>st w'. getConnectionStatus s w = Inr (st, w') \<and>
           connected (ftso_status st) \<and> connected (fdc_status st) \<and>
           connected (stateConnector_status st) \<and>
           lastUpdate (ftso_status st) = Some (ftso_lastUpdateTimestamp fc) \<and>
           lastUpdate (fdc_status st) = Some (fdc_lastUpdateTimestamp dc) \<and>
           lastUpdate (stateConnector_status st) = Some (sc_lastUpdateTimestamp sc)"
  using assms
  by (simp add: getConnectionStatus_def FTSO_getStatus_def FDC_getStatus_def SC_getStatus_def
      catch_def disconnected_status_def)

lemma status_before:
  assumes "getConnectionStatus s w = Inr (st, w')"
  shows "(\<forall>t. lastUpdate (ftso_status st) = Some t \<longrightarrow>
            (\<exists>c. ftsoConnection s = Some c \<and> ftso_lastUpdateTimestamp c = t)) \<and>
         (\<forall>t. lastUpdate (fdc_status st) = Some t \<longrightarrow>
            (\<exists>c. fdcConnection s = Some c \<and> fdc_lastUpdateTimestamp c = t)) \<and>
         (\<forall>t. lastUpdate (stateConnector_status st) = Some t \<longrightarrow>
            (\<exists>c. stateConnector s = Some c \<and> sc_lastUpdateTimestamp c = t))"
  using assms
  by (auto simp add: getConnectionStatus_def FTSO_getStatus_def FDC_getStatus_def
      SC_getStatus_def catch_def disconnected_status_def
      split: option.splits if_splits sum.splits)

lemma initialize_timestamps_past:
  assumes "initialize s w = Inr (s', w')"
  shows "timestamps_past s' w'"
proof -
  obtain fc dc sc where r:
    "initialize s w
       = Inr (s\<lparr>ftsoConnection := Some fc, fdcConnection := Some dc, stateConnector := Some sc\<rparr>,
              setTimeout 600 (setTimeout 700 (setTimeout 500 w)))"
    "ftso_lastUpdateTimestamp fc = clock (setTimeout 500 w)"
    "fdc_lastUpdateTimestamp dc = clock (setTimeout 700 (setTimeout 500 w))"
    "sc_lastUpdateTimestamp sc = clock (setTimeout 600 (setTimeout 700 (setTimeout 500 w)))"
    using initialize_result [of s w] by blast
  from assms r(1) have s': "s' = s\<lparr>ftsoConnection := Some fc, fdcConnection := Some dc,
                                   stateConnector := Some sc\<rparr>"
    and w': "w' = setTimeout 600 (setTimeout 700 (setTimeout 500 w))"
    by simp_all
  show ?thesis
    unfolding timestamps_past_def s' w' using r(2-4)
    by (simp add: setTimeout_def)
qed

lemma submitDataPoint_without_settings:
  assumes "dataProviderSettings (ftso_config c) = None"
  shows "submitDataPoint c a p t w
           = Inl (Error (if ftso_isConnected c \<and> ftso_client c \<noteq> None
                         then ''This connection is not configured as a data provider''
                         else ''Not connected to FTSO v2. Call connect() first.''))"
  using assms by (simp add: submitDataPoint_def FTSO_checkConnection_def)

lemma example_connector_parts:
  "\<exists>fc dc sc.
     initialize (FlareNetworkConnector_new example_config) example_world
       = Inr (example_connector, example_connector_world) \<and>
     ftsoConnection example_connector = Some fc \<and>
     fdcConnection example_connector = Some dc \<and>
     stateConnector example_connector = Some sc \<and>
     ftso_isConnected fc \<and> ftso_client fc \<noteq> None \<and>
     dataProviderSettings (ftso_config fc) = None \<and>
     ftso_lastUpdateTimestamp fc = 1700000000500 \<and>
     fdc_isConnected dc \<and> sc_isConnected sc"
proof -
  let ?s = "FlareNetworkConnector_new example_config"
  obtain fc dc sc where r:
    "initialize ?s example_world
       = Inr (?s\<lparr>ftsoConnection := Some fc, fdcConnection := Some dc, stateConnector := Some sc\<rparr>,
              setTimeout 600 (setTimeout 700 (setTimeout 500 example_world)))"
    "ftso_isConnected fc" "ftso_client fc \<noteq> None"
    "dataProviderSettings (ftso_config fc) = None"
    "ftso_lastUpdateTimestamp fc = clock (setTimeout 500 example_world)"
    "fdc_isConnected dc" "sc_isConnected sc"
    using initialize_result [of ?s example_world] by blast
  have c: "example_connector
             = ?s\<lparr>ftsoConnection := Some fc, fdcConnection := Some dc, stateConnector := Some sc\<rparr>"
    by (simp add: example_connector_def r(1))
  have w: "example_connector_world = setTimeout 600 (setTimeout 700 (setTimeout 500 example_world))"
    by (simp add: example_connector_world_def r(1))
  have t: "clock (setTimeout 500 example_world) = 1700000000500"
    by (simp add: setTimeout_def example_world_def)
  have "ftsoConnection example_connector = Some fc" "fdcConnection example_connector = Some dc"
    "stateConnector example_connector = Some sc"
    by (simp_all add: c)
  moreover have "initialize ?s example_world = Inr (example_connector, example_connector_world)"
    using r(1) by (simp only: c w)
  moreover have "ftso_lastUpdateTimestamp fc = 1700000000500"
    using r(5) t by simp
  ultimately show ?thesis
    using r(2-4,6,7) by blast
qed

lemma example_supervised_ftso_facts:
  "getFTSOConnection example_connector = Inr example_supervised_ftso"
  "ftso_isConnected example_supervised_ftso"
  "ftso_client example_supervised_ftso \<noteq> None"
  "dataProviderSettings (ftso_config example_supervised_ftso) = None"
proof -
  obtain fc where fc: "ftsoConnection example_connector = Some fc" "ftso_isConnected fc"
    "ftso_client fc \<noteq> None" "dataProviderSettings (ftso_config fc) = None"
    using example_connector_parts by blast
  have get: "getFTSOConnection example_connector = Inr fc"
    by (simp add: getFTSOConnection_def fc(1))
  then have eq: "example_supervised_ftso = fc"
    by (simp add: example_supervised_ftso_def)
  show "getFTSOConnection example_connector = Inr example_supervised_ftso"
    "ftso_isConnected example_supervised_ftso"
    "ftso_client example_supervised_ftso \<noteq> None"
    "dataProviderSettings (ftso_config example_supervised_ftso) = None"
    using get fc(2-4) by (simp_all add: eq)
qed

lemma example_disconnected_ftso_facts:
  "FTSO_disconnect example_supervised_ftso = Inr example_disconnected_ftso"
  "\<not> ftso_isConnected example_disconnected_ftso"
  "ftso_config example_disconnected_ftso = ftso_config example_supervised_ftso"
proof -
  have d: "FTSO_disconnect example_supervised_ftso
             = Inr (example_supervised_ftso\<lparr>ftso_client := None, ftso_isConnected := False\<rparr>)"
    using example_supervised_ftso_facts(2) by (simp add: FTSO_disconnect_def rethrow_def)
  then have eq: "example_disconnected_ftso
                   = example_supervised_ftso\<lparr>ftso_client := None, ftso_isConnected := False\<rparr>"
    by (simp add: example_disconnected_ftso_def)
  show "FTSO_disconnect example_supervised_ftso = Inr example_disconnected_ftso"
    "\<not> ftso_isConnected example_disconnected_ftso"
    "ftso_config example_disconnected_ftso = ftso_config example_supervised_ftso"
    using d by (simp_all add: eq)
qed

text \<open>
  Claim C10, as amended. \<open>initialize\<close> always succeeds and leaves a connected price
  connection whose configuration has no \<open>dataProviderSettings\<close>. On that connection
  \<open>submitDataPoint\<close> never returns a result: it throws
  \<open>This connection is not configured as a data provider\<close> while the connection is
  connected, and the not-connected error of \<open>checkConnection\<close> once it is disconnected.
\<close>

theorem submitDataPoint_not_provider:
  "\<exists>s' w' c. initialize s w = Inr (s', w') \<and> getFTSOConnection s' = Inr c \<and>
     FTSO_checkConnection c = Inr () \<and>
     dataProviderSettings (ftso_config c) = None \<and>
     (\<forall>a p t w2. submitDataPoint c a p t w2
        = Inl (Error ''This connection is not configured as a data provider'')) \<and>
     (\<forall>c2 a p t w2. ftso_config c2 = ftso_config c \<longrightarrow>
        submitDataPoint c2 a p t w2
          = Inl (Error (if ftso_isConnected c2 \<and> ftso_client c2 \<noteq> None
                        then ''This connection is not configured as a data provider''
                        else ''Not connected to FTSO v2. Call connect() first.'')))"
proof -
  obtain fc dc sc where r:
    "initialize s w
       = Inr (s\<lparr>ftsoConnection := Some fc, fdcConnection := Some dc, stateConnector := Some sc\<rparr>,
              setTimeout 600 (setTimeout 700 (setTimeout 500 w)))"
    "ftso_isConnected fc" "ftso_client fc \<noteq> None"
    "dataProviderSettings (ftso_config fc) = None"
    using initialize_result [of s w] by blast
  let ?s' = "s\<lparr>ftsoConnection := Some fc, fdcConnection := Some dc, stateConnector := Some sc\<rparr>"
  have get: "getFTSOConnection ?s' = Inr fc"
    by (simp add: getFTSOConnection_def)
  have conn: "FTSO_checkConnection fc = Inr ()"
    using r(2,3) by (simp add: FTSO_checkConnection_def)
  have own: "submitDataPoint fc a p t w2
               = Inl (Error ''This connection is not configured as a data provider'')"
    for a p t w2
    using submitDataPoint_without_settings [OF r(4)] r(2,3) by simp
  have other: "submitDataPoint c2 a p t w2
          = Inl (Error (if ftso_isConnected c2 \<and> ftso_client c2 \<noteq> None
                        then ''This connection is not configured as a data provider''
                        else ''Not connected to FTSO v2. Call connect() first.''))"
    if "ftso_config c2 = ftso_config fc" for c2 a p t w2
    using that r(4) by (intro submitDataPoint_without_settings) simp
  show ?thesis
    using r(1) get conn r(4) own other by blast
qed

theorem submitDataPoint_not_provider_witness:
  "ftso_config example_disconnected_ftso = ftso_config example_supervised_ftso \<and>
   submitDataPoint example_supervised_ftso ''BTC'' 50000 1700000000000 example_connector_world
     = Inl (Error ''This connection is not configured as a data provider'') \<and>
   submitDataPoint example_disconnected_ftso ''BTC'' 50000 1700000000000 example_connector_world
     = Inl (Error ''Not connected to FTSO v2. Call connect() first.'')"
proof -
  obtain s' w' c where r:
    "initialize (FlareNetworkConnector_new example_config) example_world = Inr (s', w')"
    "getFTSOConnection s' = Inr c"
    "\<forall>a p t w2. submitDataPoint c a p t w2
        = Inl (Error ''This connection is not configured as a data provider'')"
    "\<forall>c2 a p t w2. ftso_config c2 = ftso_config c \<longrightarrow>
        submitDataPoint c2 a p t w2
          = Inl (Error (if ftso_isConnected c2 \<and> ftso_client c2 \<noteq> None
                        then ''This connection is not configured as a data provider''
                        else ''Not connected to FTSO v2. Call connect() first.''))"
    using submitDataPoint_not_provider
      [of "FlareNetworkConnector_new example_config" example_world]
    by blast
  have "s' = example_connector"
    using r(1) example_connector_parts by auto
  then have c: "c = example_supervised_ftso"
    using r(2) example_supervised_ftso_facts(1) by simp
  show ?thesis
    using r(3,4) example_disconnected_ftso_facts(2,3) unfolding c by simp
qed

text \<open>
  The claim C10 as first stated, that the call always throws the data-provider error, fails
  once the connection obtained from the supervisor has been disconnected: the connection
  check comes first and throws its own error.
\<close>

theorem submitDataPoint_not_provider_counterexample:
  "initialize (FlareNetworkConnector_new example_config) example_world
     = Inr (example_connector, example_connector_world) \<and>
   getFTSOConnection example_connector = Inr example_supervised_ftso \<and>
   FTSO_disconnect example_supervised_ftso = Inr example_disconnected_ftso \<and>
   submitDataPoint example_disconnected_ftso ''BTC'' 50000 1700000000000 example_connector_world
     = Inl (Error ''Not connected to FTSO v2. Call connect() first.'') \<and>
   submitDataPoint example_disconnected_ftso ''BTC'' 50000 1700000000000 example_connector_world
     \<noteq> Inl (Error ''This connection is not configured as a data provider'')"
proof -
  have cfg: "dataProviderSettings (ftso_config example_disconnected_ftso) = None"
    using example_disconnected_ftso_facts(3) example_supervised_ftso_facts(4) by simp
  have "submitDataPoint example_disconnected_ftso ''BTC'' 50000 1700000000000
          example_connector_world
        = Inl (Error ''Not connected to FTSO v2. Call connect() first.'')"
    using submitDataPoint_without_settings [OF cfg] example_disconnected_ftso_facts(2) by simp
  then show ?thesis
    using example_connector_parts example_supervised_ftso_facts(1) example_disconnected_ftso_facts(1)
    by auto
qed

text \<open>
  Claim C9. For every partial configuration, \<open>updateConfig\<close> returns; in the supervisor it
  leaves, \<open>getConnectionStatus\<close> reports \<open>connected\<close> for all three connections, each with a
  \<open>lastUpdate\<close> that is later than any \<open>lastUpdate\<close> reported for that connection before the
  call. Time is the clock of the world: it does not run backwards, and a timer does not
  fire early, so that no connection carries a time later than the clock when
  \<open>updateConfig\<close> is called.
\<close>

theorem updateConfig_status:
  assumes past: "timestamps_past s w"
    and before: "getConnectionStatus s w0 = Inr (before, w0')"
  shows "\<exists>s' w'. updateConfig s newConfig w = Inr (s', w') \<and>
           (\<forall>w2. \<exists>after w2'. getConnectionStatus s' w2 = Inr (after, w2') \<and>
              connected (ftso_status after) \<and>
              connected (fdc_status after) \<and>
              connected (stateConnector_status after) \<and>
              (\<exists>t. lastUpdate (ftso_status after) = Some t \<and>
                 (\<forall>t0. lastUpdate (ftso_status before) = Some t0 \<longrightarrow> t0 < t)) \<and>
              (\<exists>t. lastUpdate (fdc_status after) = Some t \<and>
                 (\<forall>t0. lastUpdate (fdc_status before) = Some t0 \<longrightarrow> t0 < t)) \<and>
              (\<exists>t. lastUpdate (stateConnector_status after) = Some t \<and>
                 (\<forall>t0. lastUpdate (stateConnector_status before) = Some t0 \<longrightarrow> t0 < t)))"
proof -
  let ?s2 = "s\<lparr>config := merge_config (config s) newConfig, ftsoConnection := None,
               fdcConnection := None, stateConnector := None\<rparr>"
  let ?w1 = "setTimeout 500 w"
  let ?w2 = "setTimeout 700 ?w1"
  let ?w3 = "setTimeout 600 ?w2"
  obtain fc dc sc where r:
    "initialize ?s2 w
       = Inr (?s2\<lparr>ftsoConnection := Some fc, fdcConnection := Some dc, stateConnector := Some sc\<rparr>,
              ?w3)"
    "ftso_isConnected fc" "fdc_isConnected dc" "sc_isConnected sc"
    "ftso_lastUpdateTimestamp fc = clock ?w1"
    "fdc_lastUpdateTimestamp dc = clock ?w2"
    "sc_lastUpdateTimestamp sc = clock ?w3"
    using initialize_result [of ?s2 w] by blast
  let ?s' = "?s2\<lparr>ftsoConnection := Some fc, fdcConnection := Some dc, stateConnector := Some sc\<rparr>"
  have run: "updateConfig s newConfig w = Inr (?s', ?w3)"
    by (simp add: updateConfig_def Let_def disconnect_result r(1))
  have later: "clock w < clock ?w1" "clock w < clock ?w2" "clock w < clock ?w3"
    by (simp_all add: setTimeout_def)
  have old:
    "\<forall>t0. lastUpdate (ftso_status before) = Some t0 \<longrightarrow> t0 \<le> clock w"
    "\<forall>t0. lastUpdate (fdc_status before) = Some t0 \<longrightarrow> t0 \<le> clock w"
    "\<forall>t0. lastUpdate (stateConnector_status before) = Some t0 \<longrightarrow> t0 \<le> clock w"
    using status_before [OF before] past
    by (auto simp add: timestamps_past_def)
  have "\<exists>after w2'. getConnectionStatus ?s' w2 = Inr (after, w2') \<and>
              connected (ftso_status after) \<and>
              connected (fdc_status after) \<and>
              connected (stateConnector_status after) \<and>
              (\<exists>t. lastUpdate (ftso_status after) = Some t \<and>
                 (\<forall>t0. lastUpdate (ftso_status before) = Some t0 \<longrightarrow> t0 < t)) \<and>
              (\<exists>t. lastUpdate (fdc_status after) = Some t \<and>
                 (\<forall>t0. lastUpdate (fdc_status before) = Some t0 \<longrightarrow> t0 < t)) \<and>
              (\<exists>t. lastUpdate (stateConnector_status after) = Some t \<and>
                 (\<forall>t0. lastUpdate (stateConnector_status before) = Some t0 \<longrightarrow> t0 < t))"
    for w2
  proof -
    obtain after w2' where a: "getConnectionStatus ?s' w2 = Inr (after, w2')"
      "connected (ftso_status after)" "connected (fdc_status after)"
      "connected (stateConnector_status after)"
      "lastUpdate (ftso_status after) = Some (clock ?w1)"
      "lastUpdate (fdc_status after) = Some (clock ?w2)"
      "lastUpdate (stateConnector_status after) = Some (clock ?w3)"
      using status_of_connected [of ?s' fc dc sc w2] r(2-7) by auto
    have "\<forall>t0. lastUpdate (ftso_status before) = Some t0 \<longrightarrow> t0 < clock ?w1"
      using old(1) later(1) by fastforce
    moreover have "\<forall>t0. lastUpdate (fdc_status before) = Some t0 \<longrightarrow> t0 < clock ?w2"
      using old(2) later(2) by fastforce
    moreover have "\<forall>t0. lastUpdate (stateConnector_status before) = Some t0 \<longrightarrow> t0 < clock ?w3"
      using old(3) later(3) by fastforce
    ultimately show ?thesis using a by blast
  qed
  then show ?thesis using run by blast
qed

theorem updateConfig_status_witness:
  "timestamps_past example_connector example_connector_world \<and>
   (\<exists>before w0'.
      getConnectionStatus example_connector example_connector_world = Inr (before, w0') \<and>
      lastUpdate (ftso_status before) = Some 1700000000500 \<and>
      (\<exists>s' w'. updateConfig example_connector example_partial_config example_connector_world
                  = Inr (s', w') \<and>
         (\<exists>after w2'. getConnectionStatus s' w' = Inr (after, w2') \<and>
            connected (ftso_status after) \<and> connected (fdc_status after) \<and>
            connected (stateConnector_status after) \<and>
            (\<exists>t. lastUpdate (ftso_status after) = Some t \<and> 1700000000500 < t))))"
proof -
  obtain fc dc sc where parts:
    "initialize (FlareNetworkConnector_new example_config) example_world
       = Inr (example_connector, example_connector_world)"
    "ftsoConnection example_connector = Some fc" "ftso_isConnected fc"
    "fdcConnection example_connector = Some dc" "fdc_isConnected dc"
    "stateConnector example_connector = Some sc" "sc_isConnected sc"
    "ftso_lastUpdateTimestamp fc = 1700000000500"
    using example_connector_parts by blast
  have past: "timestamps_past example_connector example_connector_world"
    using parts(1) by (rule initialize_timestamps_past)
  obtain before w0' where before:
    "getConnectionStatus example_connector example_connector_world = Inr (before, w0')"
    "lastUpdate (ftso_status before) = Some 1700000000500"
    using status_of_connected [OF parts(2-7), of example_connector_world] parts(8) by auto
  obtain s' w' where run:
    "updateConfig example_connector example_partial_config example_connector_world = Inr (s', w')"
    and every: "\<forall>w2. \<exists>after w2'. getConnectionStatus s' w2 = Inr (after, w2') \<and>
              connected (ftso_status after) \<and>
              connected (fdc_status after) \<and>
              connected (stateConnector_status after) \<and>
              (\<exists>t. lastUpdate (ftso_status after) = Some t \<and>
                 (\<forall>t0. lastUpdate (ftso_status before) = Some t0 \<longrightarrow> t0 < t)) \<and>
              (\<exists>t. lastUpdate (fdc_status after) = Some t \<and>
                 (\<forall>t0. lastUpdate (fdc_status before) = Some t0 \<longrightarrow> t0 < t)) \<and>
              (\<exists>t. lastUpdate (stateConnector_status after) = Some t \<and>
                 (\<forall>t0. lastUpdate (stateConnector_status before) = Some t0 \<longrightarrow> t0 < t))"
    using updateConfig_status [OF past before(1), of example_partial_config]
    by (elim exE conjE)
  from every [rule_format, of w'] obtain after w2' where
    a: "getConnectionStatus s' w' = Inr (after, w2')"
    "connected (ftso_status after)" "connected (fdc_status after)"
    "connected (stateConnector_status after)"
    "\<exists>t. lastUpdate (ftso_status after) = Some t \<and>
         (\<forall>t0. lastUpdate (ftso_status before) = Some t0 \<longrightarrow> t0 < t)"
    by blast
  then have "\<exists>t. lastUpdate (ftso_status after) = Some t \<and> 1700000000500 < t"
    using before(2) by auto
  then show ?thesis
    using past before run a(1-4) by blast
qed

end
